theory Spec2Isabelle
  imports Main "HOL-Library.Word"
begin

section \<open>The wallpaper plugin: per-tile download, retry and grid-wide swap\<close>

text \<open>
  A shallow embedding of \<^verbatim>\<open>src/wallpaper.cpp\<close>. The consumer side (the compositor's
  event loop) is a set of state transformers on a \<open>screen\<close> record; every call into the
  host (libwayland, libc, threads, the timer, the fade animation) appends an \<open>effect\<close>
  to the screen's effect list, in program order. The worker side (\<open>curl_download\<close>) is a
  function on the one tile it is given, driven by a script of what libcurl reports in
  each loop iteration.
\<close>

subsection \<open>Data\<close>

type_synonym byte = "8 word"

text \<open>\<^verbatim>\<open>#define RETRY_TIMEOUT 1000\<close>\<close>

definition RETRY_TIMEOUT :: int where
  "RETRY_TIMEOUT = 1000"

record wlr_box =
  box_x :: int
  box_y :: int
  box_width :: int
  box_height :: int

text \<open>
  \<open>wf::simple_texture_t\<close>: the GL texture name (\<open>-1\<close> while none was generated), the
  size, and the pixel rows last uploaded to it.
\<close>

record simple_texture_t =
  tex :: int
  tex_width :: int
  tex_height :: int
  tex_pixels :: "byte list"

text \<open>
  \<open>class wallpaper\<close>. \<open>image_fp\<close> is the memory stream with the bytes written to it so
  far (\<open>None\<close> is the null \<open>FILE *\<close>); \<open>image_size\<close> is the \<open>size_t\<close> the stream
  updates when it is flushed or closed; \<open>thread\<close> is whether the
  \<open>unique_ptr<std::thread>\<close> is non-null; the three \<open>unique_ptr\<close> textures
  \<open>from\<close>, \<open>to\<close>, \<open>tmp\<close> are options. \<open>geometry\<close> is the member declared in
  \<open>wallpaper\<close>, written only when a fetch starts; \<open>view_geometry\<close> is the geometry of
  the base view, written by \<open>set_geometry\<close>.
\<close>

record wallpaper =
  sig_fd :: int
  image_fp :: "byte list option"
  geometry :: wlr_box
  image_size :: nat
  failed_counter :: int
  event_source :: int
  downloaded :: bool
  download_failed :: bool
  thread :: bool
  from_tex :: "simple_texture_t option"
  to_tex :: "simple_texture_t option"
  tmp_tex :: "simple_texture_t option"
  view_geometry :: wlr_box

text \<open>What the consumer asks of the host, in program order; tiles are named by grid position.\<close>

datatype effect =
    Eventfd_Created int
  | Fd_Closed int
  | Memstream_Opened nat nat
  | Stream_Flushed nat nat
  | Stream_Closed nat nat
  | Buffer_Freed nat nat
  | Event_Source_Added nat nat int
  | Event_Source_Removed nat nat
  | Thread_Started nat nat
  | Thread_Joined nat nat
  | Timer_Set int
  | Timer_Disconnected
  | Texture_Uploaded nat nat
  | Fade_Animate
  | Hooks_Added
  | Hooks_Removed
  | Damage_Wallpapers
  | Damage_Whole
  | View_Closed nat nat

text \<open>
  \<open>class wayfire_wallpaper_screen\<close>. \<open>timer\<close> is \<open>Some ms\<close> while the \<open>wf::wl_timer\<close>
  is connected. \<open>wallpapers\<close> is the vector of columns, \<open>wallpapers ! x ! y\<close>; it is
  sized to the workspace grid by \<open>init\<close> and every loop of the source runs over that
  grid size, so the loops are traversals of this list. \<open>output_geometry\<close> is what
  \<open>output->get_relative_geometry()\<close> returns at the moment.
\<close>

record screen =
  timer :: "int option"
  hook_set :: bool
  wallpaper_shutdown :: bool
  wallpapers :: "wallpaper list list"
  cycle :: bool
  cycle_time :: int
  output_geometry :: wlr_box
  effects :: "effect list"

text \<open>
  The results of the host calls whose outcome the code branches on or stores, for the
  tile at a grid position: \<open>eventfd()\<close> (\<open>-1\<close> on failure), whether \<open>open_memstream\<close>
  returns a stream, what libjpeg makes of a byte sequence (\<open>None\<close>: libjpeg calls
  its \<open>error_exit\<close>; otherwise the width, the height and the RGB rows it returns,
  which it also does for data it only warns about), and the texture name
  \<open>glGenTextures\<close> hands out.
\<close>

record host =
  eventfd :: "nat \<Rightarrow> nat \<Rightarrow> int"
  open_memstream :: "nat \<Rightarrow> nat \<Rightarrow> bool"
  jpeg_decode :: "byte list \<Rightarrow> (int \<times> int \<times> byte list) option"
  gl_gen_texture :: int

subsection \<open>Access to the grid\<close>

definition in_grid :: "screen \<Rightarrow> nat \<Rightarrow> nat \<Rightarrow> bool" where
  "in_grid s x y \<longleftrightarrow> x < length (wallpapers s) \<and> y < length (wallpapers s ! x)"

definition tile_at :: "screen \<Rightarrow> nat \<Rightarrow> nat \<Rightarrow> wallpaper" where
  "tile_at s x y = wallpapers s ! x ! y"

definition put_tile :: "nat \<Rightarrow> nat \<Rightarrow> wallpaper \<Rightarrow> screen \<Rightarrow> screen" where
  "put_tile x y wp s =
     s\<lparr>wallpapers := (wallpapers s)[x := (wallpapers s ! x)[y := wp]]\<rparr>"

definition emit :: "effect list \<Rightarrow> screen \<Rightarrow> screen" where
  "emit es s = s\<lparr>effects := effects s @ es\<rparr>"

subsection \<open>The shared timer\<close>

text \<open>
  \<open>timer.set_timeout(ms, cycle_timeout)\<close>, \<open>timer.disconnect()\<close> and
  \<open>timer.is_connected()\<close>. The timer class is wayfire's; the model keeps what the
  code can observe of it, whether it is connected, and the timeout it was last given.
  Its callback is always \<open>cycle_timeout\<close>.
\<close>

definition set_timeout :: "int \<Rightarrow> screen \<Rightarrow> screen" where
  "set_timeout ms s = emit [Timer_Set ms] (s\<lparr>timer := Some ms\<rparr>)"

definition disconnect :: "screen \<Rightarrow> screen" where
  "disconnect s = emit [Timer_Disconnected] (s\<lparr>timer := None\<rparr>)"

definition is_connected :: "screen \<Rightarrow> bool" where
  "is_connected s \<longleftrightarrow> timer s \<noteq> None"

subsection \<open>clean_up\<close>

text \<open>
  What a flush or close of the memory stream leaves in \<open>image_size\<close>: the number of
  bytes written to the stream (with no stream, the member keeps its value).
\<close>

definition stream_size :: "wallpaper \<Rightarrow> nat" where
  "stream_size wp = (case image_fp wp of None \<Rightarrow> image_size wp | Some bs \<Rightarrow> length bs)"

text \<open>
  \<open>clean_up(wp)\<close>: remove the event source, join the thread, null the handle, close the
  stream (which flushes it), free the buffer, close the descriptor. The descriptor and
  stream members keep their values.
\<close>

definition clean_up :: "nat \<Rightarrow> nat \<Rightarrow> screen \<Rightarrow> screen" where
  "clean_up x y s =
     (let wp = tile_at s x y in
      emit [Event_Source_Removed x y, Thread_Joined x y, Stream_Closed x y,
            Buffer_Freed x y, Fd_Closed (sig_fd wp)]
        (put_tile x y
           (wp\<lparr>thread := False, image_size := stream_size wp\<rparr>) s))"

subsection \<open>update_wallpaper\<close>

definition update_wallpaper :: "host \<Rightarrow> nat \<Rightarrow> nat \<Rightarrow> screen \<Rightarrow> screen" where
  "update_wallpaper h x y s =
     (let wp = tile_at s x y in
      if thread wp then set_timeout RETRY_TIMEOUT s
      else
        let fd = eventfd h x y in
        if fd = - 1 then disconnect (put_tile x y (wp\<lparr>sig_fd := fd\<rparr>) s)
        else if \<not> open_memstream h x y then
          emit [Fd_Closed fd]
            (disconnect
               (emit [Eventfd_Created fd]
                  (put_tile x y (wp\<lparr>sig_fd := fd, image_fp := None\<rparr>) s)))
        else
          emit [Eventfd_Created fd, Memstream_Opened x y, Event_Source_Added x y fd,
                Thread_Started x y]
            (put_tile x y
               (wp\<lparr>sig_fd := fd, image_fp := Some [], geometry := output_geometry s,
                   event_source := fd, thread := True\<rparr>) s))"

subsection \<open>texture_from_jpeg_fp\<close>

text \<open>
  The function installs libjpeg's standard error manager (\<open>jpeg_std_error\<close>) and has
  no error path of its own: when libjpeg rejects the data, control does not come back
  to the caller (the standard \<open>error_exit\<close> ends the process), which is the \<open>Inl\<close>
  result. Otherwise it stores the size, generates a texture name if the texture has
  none, uploads the rows, and returns \<open>true\<close>.
\<close>

datatype fatal = Jpeg_Error_Exit

definition texture_from_jpeg_fp ::
  "host \<Rightarrow> byte list \<Rightarrow> simple_texture_t \<Rightarrow> fatal + (bool \<times> simple_texture_t)" where
  "texture_from_jpeg_fp h file texture =
     (case jpeg_decode h file of
        None \<Rightarrow> Inl Jpeg_Error_Exit
      | Some (w, ht, rows) \<Rightarrow>
          Inr (True,
               texture\<lparr>tex_width := w, tex_height := ht,
                       tex := (if tex texture = - 1 then gl_gen_texture h else tex texture),
                       tex_pixels := rows\<rparr>))"

text \<open>A default-constructed \<open>wf::simple_texture_t\<close>.\<close>

definition new_texture :: simple_texture_t where
  "new_texture = \<lparr>tex = - 1, tex_width = 0, tex_height = 0, tex_pixels = []\<rparr>"

subsection \<open>activate and deactivate\<close>

definition activate :: "screen \<Rightarrow> screen" where
  "activate s =
     (if hook_set s then s
      else emit [Hooks_Added, Damage_Wallpapers] (s\<lparr>hook_set := True\<rparr>))"

definition deactivate :: "screen \<Rightarrow> screen" where
  "deactivate s =
     (if \<not> hook_set s then s
      else emit [Hooks_Removed] (s\<lparr>hook_set := False\<rparr>))"

subsection \<open>download_complete\<close>

text \<open>\<open>fflush(wp.image_fp)\<close>: the stream publishes its length in \<open>image_size\<close>.\<close>

definition fflush_image :: "nat \<Rightarrow> nat \<Rightarrow> screen \<Rightarrow> screen" where
  "fflush_image x y s =
     (let wp = tile_at s x y in
      emit [Stream_Flushed x y]
        (put_tile x y (wp\<lparr>image_size := stream_size wp\<rparr>) s))"

text \<open>Lines 350-354: width and height recorded at fetch start against the output's.\<close>

definition check_geometry :: "nat \<Rightarrow> nat \<Rightarrow> screen \<Rightarrow> screen" where
  "check_geometry x y s =
     (let wp = tile_at s x y; og = output_geometry s in
      if box_width (geometry wp) \<noteq> box_width og \<or> box_height (geometry wp) \<noteq> box_height og
      then put_tile x y (wp\<lparr>download_failed := True\<rparr>) s
      else s)"

text \<open>
  Lines 358-377, the branch taken when \<open>wp.download_failed || !wp.image_size\<close>.
  \<open>failed_counter\<close> is a C \<open>int\<close>; it is reset to 0 by every \<open>update_texture\<close> and
  by every success, so the increment is modelled on the integers.
\<close>

definition download_failure :: "host \<Rightarrow> nat \<Rightarrow> nat \<Rightarrow> screen \<Rightarrow> screen" where
  "download_failure h x y s =
     (let s1 = clean_up x y s;
          wp = tile_at s1 x y;
          s2 = put_tile x y (wp\<lparr>failed_counter := failed_counter wp + 1\<rparr>) s1;
          s3 = (if failed_counter wp + 1 > 3
                then (if \<not> is_connected s2 then set_timeout RETRY_TIMEOUT s2 else s2)
                else update_wallpaper h x y s2)
      in put_tile x y ((tile_at s3 x y)\<lparr>download_failed := False\<rparr>) s3)"

text \<open>Lines 380-391: mark the tile, make sure \<open>tmp\<close> exists, decode into it.\<close>

definition mark_downloaded :: "nat \<Rightarrow> nat \<Rightarrow> screen \<Rightarrow> screen" where
  "mark_downloaded x y s =
     put_tile x y ((tile_at s x y)\<lparr>downloaded := True, failed_counter := 0\<rparr>) s"

definition stream_bytes :: "wallpaper \<Rightarrow> byte list" where
  "stream_bytes wp = (case image_fp wp of None \<Rightarrow> [] | Some bs \<Rightarrow> bs)"

definition decode_image :: "host \<Rightarrow> nat \<Rightarrow> nat \<Rightarrow> screen \<Rightarrow> fatal + screen" where
  "decode_image h x y s =
     (let wp = tile_at s x y;
          t = (case tmp_tex wp of None \<Rightarrow> new_texture | Some t \<Rightarrow> t)
      in case texture_from_jpeg_fp h (stream_bytes wp) t of
           Inl e \<Rightarrow> Inl e
         | Inr (ok, t') \<Rightarrow>
             Inr (emit [Texture_Uploaded x y] (put_tile x y (wp\<lparr>tmp_tex := Some t'\<rparr>) s)))"

text \<open>Lines 393-406: the scan for a tile that is not \<open>downloaded\<close>, leaving at the first.\<close>

fun column_done :: "wallpaper list \<Rightarrow> bool" where
  "column_done [] = True"
| "column_done (wp # wps) = (if \<not> downloaded wp then False else column_done wps)"

fun all_done :: "wallpaper list list \<Rightarrow> bool" where
  "all_done [] = True"
| "all_done (col # cols) = (if column_done col then all_done cols else False)"

text \<open>Lines 413-430: the swap of every tile, the fade, and the next cycle's timer.\<close>

definition swap_textures :: "wallpaper \<Rightarrow> wallpaper" where
  "swap_textures wp =
     wp\<lparr>from_tex := to_tex wp, to_tex := tmp_tex wp, tmp_tex := None,
        downloaded := False, download_failed := False\<rparr>"

definition commit :: "screen \<Rightarrow> screen" where
  "commit s =
     (let s1 = s\<lparr>wallpapers := map (map swap_textures) (wallpapers s)\<rparr>;
          s2 = activate (emit [Fade_Animate] s1)
      in if cycle s2 then set_timeout (cycle_time s2) s2 else s2)"

text \<open>
  The handler registered for the tile's descriptor; \<open>readable\<close> is
  \<open>mask & WL_EVENT_READABLE\<close>. The read that drains the descriptor changes nothing
  the code looks at again, and the handler's return value is always 0; neither is
  modelled.
\<close>

definition download_complete :: "host \<Rightarrow> nat \<Rightarrow> nat \<Rightarrow> bool \<Rightarrow> screen \<Rightarrow> fatal + screen" where
  "download_complete h x y readable s =
     (if \<not> readable then Inr s
      else if \<not> thread (tile_at s x y) then Inr s
      else if wallpaper_shutdown s then Inr (clean_up x y s)
      else
        let s1 = check_geometry x y (fflush_image x y s);
            wp = tile_at s1 x y
        in if download_failed wp \<or> image_size wp = 0 then Inr (download_failure h x y s1)
           else
             case decode_image h x y (mark_downloaded x y s1) of
               Inl e \<Rightarrow> Inl e
             | Inr s2 \<Rightarrow>
                 Inr (clean_up x y (if all_done (wallpapers s2) then commit s2 else s2)))"

text \<open>
  The two tests of lines 351 and 356 as they read on the tile before the handler runs:
  the recorded size differs from the output's; the flag is set or the stream is empty.
\<close>

definition stale_geometry :: "screen \<Rightarrow> nat \<Rightarrow> nat \<Rightarrow> bool" where
  "stale_geometry s x y \<longleftrightarrow>
     box_width (geometry (tile_at s x y)) \<noteq> box_width (output_geometry s) \<or>
     box_height (geometry (tile_at s x y)) \<noteq> box_height (output_geometry s)"

definition failed_or_empty :: "screen \<Rightarrow> nat \<Rightarrow> nat \<Rightarrow> bool" where
  "failed_or_empty s x y \<longleftrightarrow>
     download_failed (tile_at s x y) \<or> stream_size (tile_at s x y) = 0"

text \<open>The state on which the scan of lines 393-406 runs, up to the decoded texture.\<close>

definition at_barrier :: "nat \<Rightarrow> nat \<Rightarrow> screen \<Rightarrow> screen" where
  "at_barrier x y s = mark_downloaded x y (check_geometry x y (fflush_image x y s))"

text \<open>The effects a call added.\<close>

definition new_effects :: "screen \<Rightarrow> screen \<Rightarrow> effect list" where
  "new_effects s s' = drop (length (effects s)) (effects s')"

text \<open>
  The barrier in the specification's words, for comparison with \<open>all_done\<close>: every
  tile is completed for the current geometry generation, that is, it is marked
  downloaded and the geometry its fetch recorded is the one the output has now.
\<close>

definition completed_for :: "wlr_box \<Rightarrow> wallpaper \<Rightarrow> bool" where
  "completed_for og wp \<longleftrightarrow>
     downloaded wp \<and> box_width (geometry wp) = box_width og \<and>
     box_height (geometry wp) = box_height og"

definition all_tiles_completed :: "screen \<Rightarrow> bool" where
  "all_tiles_completed s \<longleftrightarrow>
     list_all (list_all (completed_for (output_geometry s))) (wallpapers s)"

text \<open>No tile of the grid has a live worker and is marked downloaded.\<close>

definition fetching_not_downloaded :: "screen \<Rightarrow> bool" where
  "fetching_not_downloaded s \<longleftrightarrow>
     (\<forall>x y. in_grid s x y \<and> thread (tile_at s x y) \<longrightarrow> \<not> downloaded (tile_at s x y))"

subsection \<open>update_texture, update_textures and the callbacks that run them\<close>

definition grid_positions :: "screen \<Rightarrow> (nat \<times> nat) list" where
  "grid_positions s =
     concat (map (\<lambda>x. map (\<lambda>y. (x, y)) [0..<length (wallpapers s ! x)])
               [0..<length (wallpapers s)])"

definition update_texture :: "host \<Rightarrow> nat \<Rightarrow> nat \<Rightarrow> screen \<Rightarrow> screen" where
  "update_texture h x y s =
     (let s1 = put_tile x y ((tile_at s x y)\<lparr>failed_counter := 0\<rparr>) s in
      if \<not> downloaded (tile_at s1 x y) then update_wallpaper h x y s1 else s1)"

definition update_textures :: "host \<Rightarrow> screen \<Rightarrow> screen" where
  "update_textures h s =
     (let s1 = (if is_connected s then disconnect s else s);
          s2 = fold (\<lambda>(x, y). update_texture h x y) (grid_positions s1) s1
      in emit [Damage_Whole] s2)"

definition cycle_timeout :: "host \<Rightarrow> screen \<Rightarrow> screen" where
  "cycle_timeout h s = update_textures h s"

text \<open>
  The output takes a new mode: from then on \<open>get_relative_geometry\<close> returns \<open>og\<close>.
  This is the host's doing; it emits \<open>output-configuration-changed\<close> afterwards.
\<close>

definition output_resized :: "wlr_box \<Rightarrow> screen \<Rightarrow> screen" where
  "output_resized og s = s\<lparr>output_geometry := og\<rparr>"

text \<open>
  \<open>output_config_changed\<close>, with the signal's mask of changed fields.
  \<open>OUTPUT_SOURCE_CHANGE\<close> is bit 0 of that mask in wayfire's headers.
\<close>

definition OUTPUT_SOURCE_CHANGE :: "32 word" where
  "OUTPUT_SOURCE_CHANGE = 1"

definition tile_box :: "wlr_box \<Rightarrow> nat \<Rightarrow> nat \<Rightarrow> wlr_box" where
  "tile_box og x y =
     \<lparr>box_x = int x * box_width og, box_y = int y * box_height og,
      box_width = box_width og, box_height = box_height og\<rparr>"

definition output_config_changed :: "host \<Rightarrow> 32 word \<Rightarrow> screen \<Rightarrow> screen" where
  "output_config_changed h changed_fields s =
     (if changed_fields = 0 then s
      else if and changed_fields OUTPUT_SOURCE_CHANGE \<noteq> 0 then s
      else
        update_textures h
          (fold (\<lambda>(x, y) t.
                   put_tile x y
                     ((tile_at t x y)\<lparr>view_geometry := tile_box (output_geometry s) x y\<rparr>) t)
             (grid_positions s) s))"

subsection \<open>init and fini\<close>

text \<open>
  The members \<open>init\<close> leaves to their in-class initialisers; the others are indeterminate
  until a fetch starts and come from \<open>junk\<close>.
\<close>

definition new_wallpaper :: "wallpaper \<Rightarrow> wallpaper" where
  "new_wallpaper junk =
     junk\<lparr>failed_counter := 0, downloaded := False, download_failed := False,
          thread := False, from_tex := None, to_tex := None, tmp_tex := None\<rparr>"

definition init ::
  "host \<Rightarrow> nat \<Rightarrow> nat \<Rightarrow> wlr_box \<Rightarrow> bool \<Rightarrow> int \<Rightarrow> wallpaper \<Rightarrow> screen" where
  "init h wsize_width wsize_height og cyc ct junk =
     update_textures h
       \<lparr>timer = None, hook_set = False, wallpaper_shutdown = False,
        wallpapers =
          map (\<lambda>x. map (\<lambda>y. (new_wallpaper junk)\<lparr>view_geometry := tile_box og x y\<rparr>)
                     [0..<wsize_height])
              [0..<wsize_width],
        cycle = cyc, cycle_time = ct, output_geometry = og, effects = []\<rparr>"

definition fini_tile :: "nat \<Rightarrow> nat \<Rightarrow> screen \<Rightarrow> screen" where
  "fini_tile x y s =
     (let s1 = (if thread (tile_at s x y) then clean_up x y s else s) in
      emit [View_Closed x y]
        (put_tile x y ((tile_at s1 x y)\<lparr>from_tex := None, to_tex := None, tmp_tex := None\<rparr>) s1))"

text \<open>
  \<open>fini\<close> up to its loop (the hooks, the timer, the flag; disconnecting the
  \<open>reserved-workarea\<close> signal changes nothing of the model), and \<open>fini\<close> itself.
\<close>

definition fini_start :: "screen \<Rightarrow> screen" where
  "fini_start s = (disconnect (deactivate s))\<lparr>wallpaper_shutdown := True\<rparr>"

definition fini :: "screen \<Rightarrow> screen" where
  "fini s =
     (let s1 = fini_start s;
          s2 = fold (\<lambda>(x, y). fini_tile x y) (grid_positions s1) s1
      in emit [Damage_Whole] s2)"

section \<open>The fetch worker\<close>

text \<open>
  What libcurl and the shared flag show the worker in one pass of the \<open>do ... while\<close>
  loop: the \<open>write_cb\<close> calls made inside \<open>curl_multi_perform\<close> (each with the value of
  \<open>wallpaper_shutdown\<close> the callback reads, and the data), the two return codes
  (\<open>CURLM_OK\<close> is 0), \<open>still_running\<close>, \<open>numfds\<close>, and the value of
  \<open>wallpaper_shutdown\<close> read by the loop test.
\<close>

record curl_step =
  delivered :: "(bool \<times> byte list) list"
  perform_mc :: int
  still_running :: int
  wait_mc :: int
  numfds :: int
  shutdown_read :: bool

text \<open>
  One transfer: the passes, indexed from 0, the value \<open>rand()\<close> returns for the URL, and
  the HTTP status of the response, which the source never asks libcurl for.
\<close>

record transfer =
  steps :: "nat \<Rightarrow> curl_step"
  rand_value :: int
  http_status :: nat

definition CURLM_OK :: int where
  "CURLM_OK = 0"

datatype worker_event =
    Http_Get int int int
  | Fd_Write int nat

definition write_cb :: "bool \<times> byte list \<Rightarrow> wallpaper \<Rightarrow> wallpaper \<times> nat" where
  "write_cb c wp =
     (if fst c then (wp, 0)
      else case image_fp wp of
             None \<Rightarrow> (wp, 0)
           | Some bs \<Rightarrow> (wp\<lparr>image_fp := Some (bs @ snd c)\<rparr>, length (snd c)))"

definition perform_writes :: "curl_step \<Rightarrow> wallpaper \<Rightarrow> wallpaper" where
  "perform_writes st wp = fold (\<lambda>c w. fst (write_cb c w)) (delivered st) wp"

text \<open>
  The loop of lines 270-305 over the passes of a transfer, from pass \<open>i\<close> with the
  locals \<open>repeats\<close> and \<open>chunks\<close>; the result is the tile and the number of passes
  made. \<open>None\<close>: the loop never ends.
  The waits inside a pass (\<open>curl_multi_wait\<close> with 100 ms, \<open>usleep(100000)\<close>) change
  no state.
\<close>

partial_function (option) curl_loop ::
  "(nat \<Rightarrow> curl_step) \<Rightarrow> nat \<Rightarrow> int \<Rightarrow> int \<Rightarrow> wallpaper \<Rightarrow> (wallpaper \<times> nat) option" where
  "curl_loop passes i repeats chunks wp =
     (let st = passes i; wp1 = perform_writes st wp in
      if perform_mc st \<noteq> CURLM_OK then Some (wp1\<lparr>download_failed := True\<rparr>, Suc i)
      else if wait_mc st \<noteq> CURLM_OK then Some (wp1\<lparr>download_failed := True\<rparr>, Suc i)
      else
        let repeats' = (if numfds st = 0 then repeats + 1 else 0) in
        if still_running st \<noteq> 0 \<and> (\<not> shutdown_read st \<or> chunks < 10)
        then curl_loop passes (Suc i) repeats'
               (if shutdown_read st then chunks + 1 else chunks) wp1
        else Some (wp1, Suc i))"

declare curl_loop.simps [code]

text \<open>\<open>curl_download\<close>: the request, the loop, and the write of 8 bytes to \<open>sig_fd\<close>.\<close>

definition curl_download ::
  "transfer \<Rightarrow> wallpaper \<Rightarrow> (wallpaper \<times> nat \<times> worker_event list) option" where
  "curl_download tr wp =
     (case curl_loop (steps tr) 0 0 0 wp of
        None \<Rightarrow> None
      | Some (wp', n) \<Rightarrow>
          Some (wp', n,
                [Http_Get (box_width (geometry wp)) (box_height (geometry wp))
                   (rand_value tr mod 10000000),
                 Fd_Write (sig_fd wp') 8]))"

text \<open>
  A pass in which \<open>curl_multi_perform\<close> or \<open>curl_multi_wait\<close> reports an error; a
  pass after which the loop is left whatever the flag says (error, or nothing left
  running); the loop test reading \<open>wallpaper_shutdown\<close> as set in pass \<open>k\<close> and in
  every later pass.
\<close>

definition multi_error :: "curl_step \<Rightarrow> bool" where
  "multi_error st \<longleftrightarrow> perform_mc st \<noteq> CURLM_OK \<or> wait_mc st \<noteq> CURLM_OK"

definition stops_at :: "transfer \<Rightarrow> nat \<Rightarrow> bool" where
  "stops_at tr n \<longleftrightarrow> multi_error (steps tr n) \<or> still_running (steps tr n) = 0"

definition shutdown_from :: "transfer \<Rightarrow> nat \<Rightarrow> bool" where
  "shutdown_from tr k \<longleftrightarrow> (\<forall>i\<ge>k. shutdown_read (steps tr i))"

section \<open>Concrete hosts, tiles and screens\<close>

text \<open>
  A host on which every allocation succeeds and which accepts as an image any data that
  starts with the JPEG start-of-image marker; two output geometries; a tile as \<open>init\<close>
  may find it; a screen of one column with one tile.
\<close>

definition box_800 :: wlr_box where
  "box_800 = \<lparr>box_x = 0, box_y = 0, box_width = 800, box_height = 600\<rparr>"

definition box_1024 :: wlr_box where
  "box_1024 = \<lparr>box_x = 0, box_y = 0, box_width = 1024, box_height = 768\<rparr>"

definition host_ok :: host where
  "host_ok =
     \<lparr>eventfd = (\<lambda>x y. 3 + int x),
      open_memstream = (\<lambda>x y. True),
      jpeg_decode = (\<lambda>bs. if take 2 bs = [0xFF, 0xD8] then Some (800, 600, bs) else None),
      gl_gen_texture = 7\<rparr>"

definition junk_tile :: wallpaper where
  "junk_tile =
     \<lparr>sig_fd = 0, image_fp = None,
      geometry = \<lparr>box_x = 0, box_y = 0, box_width = 0, box_height = 0\<rparr>,
      image_size = 0, failed_counter = 0, event_source = 0, downloaded = False,
      download_failed = False, thread = False, from_tex = None, to_tex = None,
      tmp_tex = None,
      view_geometry = \<lparr>box_x = 0, box_y = 0, box_width = 0, box_height = 0\<rparr>\<rparr>"

definition fetching_tile :: wallpaper where
  "fetching_tile =
     junk_tile\<lparr>sig_fd := 3, image_fp := Some [], geometry := box_800, event_source := 3,
               thread := True\<rparr>"

definition screen_of :: "wallpaper list list \<Rightarrow> screen" where
  "screen_of ws =
     \<lparr>timer = None, hook_set = False, wallpaper_shutdown = False, wallpapers = ws,
      cycle = True, cycle_time = 60000, output_geometry = box_800, effects = []\<rparr>"


definition jpeg_body :: "byte list" where
  "jpeg_body = [0xFF, 0xD8, 0xFF, 0xD9]"

definition resized_screen :: screen where
  "resized_screen =
     (screen_of [[fetching_tile\<lparr>image_fp := Some jpeg_body\<rparr>]])\<lparr>output_geometry := box_1024\<rparr>"

text \<open>Two columns of one tile, the first fetching, with shutdown requested.\<close>

definition closing_screen :: screen where
  "closing_screen = (screen_of [[fetching_tile], [junk_tile]])\<lparr>wallpaper_shutdown := True\<rparr>"

text \<open>
  A transfer that delivers a small image in its first pass and is over in the second
  (with a first value of \<open>rand()\<close>); a worker thread running to its end on the tile it
  was given; the handler run on a readable descriptor, where it returns.
\<close>

definition transfer_ok :: transfer where
  "transfer_ok =
     \<lparr>steps = (\<lambda>i. \<lparr>delivered = (if i = 0 then [(False, jpeg_body)] else []),
                     perform_mc = 0, still_running = (if i = 0 then 1 else 0),
                     wait_mc = 0, numfds = 1, shutdown_read = False\<rparr>),
      rand_value = 1804289383, http_status = 200\<rparr>"

text \<open>
  A transfer that never ends by itself, with shutdown read as set from pass 2 on; the
  transfer above answered with status 404; a transfer that ends at once with no data.
\<close>

definition transfer_stalled :: transfer where
  "transfer_stalled =
     \<lparr>steps = (\<lambda>i. \<lparr>delivered = [], perform_mc = 0, still_running = 1, wait_mc = 0,
                     numfds = 0, shutdown_read = (2 \<le> i)\<rparr>),
      rand_value = 846930886, http_status = 0\<rparr>"

definition transfer_404 :: transfer where
  "transfer_404 = transfer_ok\<lparr>http_status := 404\<rparr>"

definition transfer_empty :: transfer where
  "transfer_empty =
     \<lparr>steps = (\<lambda>i. \<lparr>delivered = [], perform_mc = 0, still_running = 0, wait_mc = 0,
                     numfds = 1, shutdown_read = False\<rparr>),
      rand_value = 1681692777, http_status = 200\<rparr>"

definition worker_finishes :: "transfer \<Rightarrow> nat \<Rightarrow> nat \<Rightarrow> screen \<Rightarrow> screen" where
  "worker_finishes tr x y s =
     (case curl_download tr (tile_at s x y) of
        None \<Rightarrow> s
      | Some (wp', n, ev) \<Rightarrow> put_tile x y wp' s)"

definition handled :: "host \<Rightarrow> nat \<Rightarrow> nat \<Rightarrow> screen \<Rightarrow> screen" where
  "handled h x y s = (case download_complete h x y True s of Inl e \<Rightarrow> s | Inr s' \<Rightarrow> s')"

text \<open>
  A run on a grid of two columns, cycling off. Both tiles start fetching for an 800x600
  output; tile (0,0) completes; the output changes to 1024x768 while tile (1,0) is in
  flight; tile (1,0) completes, is found stale and is fetched again; its second worker
  finishes.
  \<open>run_4\<close> is the state in which the handler then runs for tile (1,0), and
  \<open>run_4_decoded\<close> the state on which that handler's scan runs.
\<close>

definition run_0 :: screen where
  "run_0 = init host_ok 2 1 box_800 False 0 junk_tile"

definition run_1 :: screen where
  "run_1 = handled host_ok 0 0 (worker_finishes transfer_ok 0 0 run_0)"

definition run_2 :: screen where
  "run_2 = output_config_changed host_ok 2 (output_resized box_1024 run_1)"

definition run_3 :: screen where
  "run_3 = handled host_ok 1 0 (worker_finishes transfer_ok 1 0 run_2)"

definition run_4 :: screen where
  "run_4 = worker_finishes transfer_ok 1 0 run_3"


definition run_4_decoded :: screen where
  "run_4_decoded =
     (case decode_image host_ok 1 0 (at_barrier 1 0 run_4) of Inl e \<Rightarrow> run_4 | Inr sb \<Rightarrow> sb)"

text \<open>A tile whose transfer went through but brought a web page instead of an image.\<close>

definition garbage_screen :: screen where
  "garbage_screen = screen_of [[fetching_tile\<lparr>image_fp := Some [0x3C, 0x68], failed_counter := 2\<rparr>]]"

text \<open>
  A tile whose transfer brought an image cut short, for which libjpeg on \<open>host_ok\<close>
  still returns rows.
\<close>

definition truncated_screen :: screen where
  "truncated_screen =
     screen_of [[fetching_tile\<lparr>image_fp := Some [0xFF, 0xD8, 0xFF], failed_counter := 2\<rparr>]]"

text \<open>
  A screen whose output was resized while its tile, with three failures so far, was
  fetching.
\<close>

definition resized_late_screen :: screen where
  "resized_late_screen =
     (screen_of [[fetching_tile\<lparr>image_fp := Some jpeg_body, failed_counter := 3\<rparr>]])
       \<lparr>output_geometry := box_1024\<rparr>"



section \<open>Properties\<close>

subsection \<open>Reading and writing tiles\<close>

lemma in_grid_put_tile [simp]: "in_grid (put_tile x y wp s) x' y' = in_grid s x' y'"
  by (cases "x' = x") (auto simp: in_grid_def put_tile_def)

lemma in_grid_emit [simp]: "in_grid (emit es s) x y = in_grid s x y"
  by (simp add: in_grid_def emit_def)

lemma tile_at_emit [simp]: "tile_at (emit es s) x y = tile_at s x y"
  by (simp add: tile_at_def emit_def)

lemma tile_at_put_tile_same [simp]:
  "in_grid s x y \<Longrightarrow> tile_at (put_tile x y wp s) x y = wp"
  by (simp add: in_grid_def tile_at_def put_tile_def)

lemma tile_at_put_tile_other [simp]:
  "x' \<noteq> x \<or> y' \<noteq> y \<Longrightarrow> tile_at (put_tile x y wp s) x' y' = tile_at s x' y'"
  by (cases "x' = x"; cases "x < length (wallpapers s)")
     (auto simp: tile_at_def put_tile_def list_update_beyond)

lemma put_tile_fields [simp]:
  "timer (put_tile x y wp s) = timer s"
  "hook_set (put_tile x y wp s) = hook_set s"
  "wallpaper_shutdown (put_tile x y wp s) = wallpaper_shutdown s"
  "cycle (put_tile x y wp s) = cycle s"
  "cycle_time (put_tile x y wp s) = cycle_time s"
  "output_geometry (put_tile x y wp s) = output_geometry s"
  "effects (put_tile x y wp s) = effects s"
  by (simp_all add: put_tile_def)

lemma emit_fields [simp]:
  "timer (emit es s) = timer s"
  "hook_set (emit es s) = hook_set s"
  "wallpaper_shutdown (emit es s) = wallpaper_shutdown s"
  "wallpapers (emit es s) = wallpapers s"
  "cycle (emit es s) = cycle s"
  "cycle_time (emit es s) = cycle_time s"
  "output_geometry (emit es s) = output_geometry s"
  "effects (emit es s) = effects s @ es"
  by (simp_all add: emit_def)

lemma shape_put_tile [simp]:
  "map length (wallpapers (put_tile x y wp s)) = map length (wallpapers s)"
proof (cases "x < length (wallpapers s)")
  case True
  then have "length (wallpapers s ! x) = map length (wallpapers s) ! x" by simp
  then show ?thesis by (simp add: put_tile_def map_update del: nth_map)
next
  case False
  then show ?thesis by (simp add: put_tile_def list_update_beyond)
qed

lemma clean_up_tile [simp]:
  "in_grid s x y \<Longrightarrow> tile_at (clean_up x y s) x y =
     (tile_at s x y)\<lparr>thread := False, image_size := stream_size (tile_at s x y)\<rparr>"
  by (simp add: clean_up_def Let_def)

lemma clean_up_other [simp]:
  "x' \<noteq> x \<or> y' \<noteq> y \<Longrightarrow> tile_at (clean_up x y s) x' y' = tile_at s x' y'"
  by (simp add: clean_up_def Let_def)

lemma clean_up_fields [simp]:
  "timer (clean_up x y s) = timer s"
  "hook_set (clean_up x y s) = hook_set s"
  "wallpaper_shutdown (clean_up x y s) = wallpaper_shutdown s"
  "cycle (clean_up x y s) = cycle s"
  "cycle_time (clean_up x y s) = cycle_time s"
  "output_geometry (clean_up x y s) = output_geometry s"
  "in_grid (clean_up x y s) x' y' = in_grid s x' y'"
  "effects (clean_up x y s) = effects s @
     [Event_Source_Removed x y, Thread_Joined x y, Stream_Closed x y, Buffer_Freed x y,
      Fd_Closed (sig_fd (tile_at s x y))]"
  by (simp_all add: clean_up_def Let_def)


subsection \<open>The timer, \<open>update_wallpaper\<close> and the paths of the handler\<close>

lemma set_timeout_simps [simp]:
  "tile_at (set_timeout ms s) x y = tile_at s x y"
  "in_grid (set_timeout ms s) x y = in_grid s x y"
  "wallpapers (set_timeout ms s) = wallpapers s"
  "timer (set_timeout ms s) = Some ms"
  "effects (set_timeout ms s) = effects s @ [Timer_Set ms]"
  "hook_set (set_timeout ms s) = hook_set s"
  "wallpaper_shutdown (set_timeout ms s) = wallpaper_shutdown s"
  "cycle (set_timeout ms s) = cycle s"
  "cycle_time (set_timeout ms s) = cycle_time s"
  "output_geometry (set_timeout ms s) = output_geometry s"
  by (simp_all add: set_timeout_def tile_at_def in_grid_def)

lemma disconnect_simps [simp]:
  "tile_at (disconnect s) x y = tile_at s x y"
  "in_grid (disconnect s) x y = in_grid s x y"
  "wallpapers (disconnect s) = wallpapers s"
  "timer (disconnect s) = None"
  "effects (disconnect s) = effects s @ [Timer_Disconnected]"
  "hook_set (disconnect s) = hook_set s"
  "wallpaper_shutdown (disconnect s) = wallpaper_shutdown s"
  "cycle (disconnect s) = cycle s"
  "cycle_time (disconnect s) = cycle_time s"
  "output_geometry (disconnect s) = output_geometry s"
  by (simp_all add: disconnect_def tile_at_def in_grid_def)

lemma update_wallpaper_frame [simp]:
  "in_grid (update_wallpaper h x y s) x' y' = in_grid s x' y'"
  "x' \<noteq> x \<or> y' \<noteq> y \<Longrightarrow> tile_at (update_wallpaper h x y s) x' y' = tile_at s x' y'"
  "hook_set (update_wallpaper h x y s) = hook_set s"
  "wallpaper_shutdown (update_wallpaper h x y s) = wallpaper_shutdown s"
  "cycle (update_wallpaper h x y s) = cycle s"
  "cycle_time (update_wallpaper h x y s) = cycle_time s"
  "output_geometry (update_wallpaper h x y s) = output_geometry s"
  by (simp_all add: update_wallpaper_def Let_def)

lemma update_wallpaper_started:
  assumes "in_grid s x y" "\<not> thread (tile_at s x y)" "eventfd h x y \<noteq> - 1" "open_memstream h x y"
  shows "tile_at (update_wallpaper h x y s) x y =
           (tile_at s x y)\<lparr>sig_fd := eventfd h x y, image_fp := Some [],
              geometry := output_geometry s, event_source := eventfd h x y, thread := True\<rparr>"
    "timer (update_wallpaper h x y s) = timer s"
    "effects (update_wallpaper h x y s) = effects s @
       [Eventfd_Created (eventfd h x y), Memstream_Opened x y,
        Event_Source_Added x y (eventfd h x y), Thread_Started x y]"
  using assms by (simp_all add: update_wallpaper_def Let_def)

lemma update_wallpaper_counter [simp]:
  "in_grid s x y \<Longrightarrow>
   failed_counter (tile_at (update_wallpaper h x y s) x y) = failed_counter (tile_at s x y)"
  by (simp add: update_wallpaper_def Let_def)

lemma checked_tile:
  "in_grid s x y \<Longrightarrow>
   tile_at (check_geometry x y (fflush_image x y s)) x y =
     (tile_at s x y)\<lparr>image_size := stream_size (tile_at s x y),
        download_failed := (download_failed (tile_at s x y) \<or> stale_geometry s x y)\<rparr>"
  by (auto simp: check_geometry_def fflush_image_def stale_geometry_def Let_def)

lemma checked_other:
  "x' \<noteq> x \<or> y' \<noteq> y \<Longrightarrow>
   tile_at (check_geometry x y (fflush_image x y s)) x' y' = tile_at s x' y'"
  by (auto simp: check_geometry_def fflush_image_def Let_def)

lemma checked_fields:
  "timer (check_geometry x y (fflush_image x y s)) = timer s"
  "hook_set (check_geometry x y (fflush_image x y s)) = hook_set s"
  "wallpaper_shutdown (check_geometry x y (fflush_image x y s)) = wallpaper_shutdown s"
  "cycle (check_geometry x y (fflush_image x y s)) = cycle s"
  "cycle_time (check_geometry x y (fflush_image x y s)) = cycle_time s"
  "output_geometry (check_geometry x y (fflush_image x y s)) = output_geometry s"
  "in_grid (check_geometry x y (fflush_image x y s)) x' y' = in_grid s x' y'"
  "effects (check_geometry x y (fflush_image x y s)) = effects s @ [Stream_Flushed x y]"
  by (simp_all add: check_geometry_def fflush_image_def Let_def)

lemma handler_failure_path:
  assumes "in_grid s x y" "thread (tile_at s x y)" "\<not> wallpaper_shutdown s"
    and "failed_or_empty s x y \<or> stale_geometry s x y"
  shows "download_complete h x y True s =
           Inr (download_failure h x y (check_geometry x y (fflush_image x y s)))"
  using assms
  by (auto simp: download_complete_def Let_def checked_tile failed_or_empty_def)

lemma handler_success_path:
  assumes "in_grid s x y" "thread (tile_at s x y)" "\<not> wallpaper_shutdown s"
    and "\<not> failed_or_empty s x y" "\<not> stale_geometry s x y"
  shows "download_complete h x y True s =
           (case decode_image h x y (at_barrier x y s) of
              Inl e \<Rightarrow> Inl e
            | Inr s2 \<Rightarrow> Inr (clean_up x y (if all_done (wallpapers s2) then commit s2 else s2)))"
  using assms
  by (auto simp: download_complete_def Let_def checked_tile failed_or_empty_def at_barrier_def)

lemma failure_counter:
  "in_grid t x y \<Longrightarrow>
   failed_counter (tile_at (download_failure h x y t) x y) = failed_counter (tile_at t x y) + 1"
  by (simp add: download_failure_def Let_def)

lemma failure_backoff:
  assumes "in_grid t x y" "failed_counter (tile_at t x y) + 1 > 3"
  shows "\<not> thread (tile_at (download_failure h x y t) x y)"
    "timer t = None \<Longrightarrow> timer (download_failure h x y t) = Some 1000"
    "timer t = None \<Longrightarrow> effects (download_failure h x y t) = effects t @
        [Event_Source_Removed x y, Thread_Joined x y, Stream_Closed x y, Buffer_Freed x y,
         Fd_Closed (sig_fd (tile_at t x y)), Timer_Set 1000]"
    "timer t \<noteq> None \<Longrightarrow> timer (download_failure h x y t) = timer t"
    "timer t \<noteq> None \<Longrightarrow> effects (download_failure h x y t) = effects t @
        [Event_Source_Removed x y, Thread_Joined x y, Stream_Closed x y, Buffer_Freed x y,
         Fd_Closed (sig_fd (tile_at t x y))]"
  using assms
  by (simp_all add: download_failure_def Let_def is_connected_def RETRY_TIMEOUT_def)

lemma failure_retry:
  assumes "in_grid t x y" "failed_counter (tile_at t x y) + 1 \<le> 3"
    "eventfd h x y \<noteq> - 1" "open_memstream h x y"
  shows "thread (tile_at (download_failure h x y t) x y)"
    "geometry (tile_at (download_failure h x y t) x y) = output_geometry t"
    "image_fp (tile_at (download_failure h x y t) x y) = Some []"
    "timer (download_failure h x y t) = timer t"
    "effects (download_failure h x y t) = effects t @
        [Event_Source_Removed x y, Thread_Joined x y, Stream_Closed x y, Buffer_Freed x y,
         Fd_Closed (sig_fd (tile_at t x y)), Eventfd_Created (eventfd h x y),
         Memstream_Opened x y, Event_Source_Added x y (eventfd h x y), Thread_Started x y]"
  using assms
  by (simp_all add: download_failure_def Let_def update_wallpaper_started)


lemma failure_downloaded:
  "in_grid t x y \<Longrightarrow>
   downloaded (tile_at (download_failure h x y t) x y) = downloaded (tile_at t x y)"
  by (simp add: download_failure_def Let_def update_wallpaper_def)


lemma handler_shutdown_path:
  assumes "thread (tile_at s x y)" "wallpaper_shutdown s"
  shows "download_complete h x y True s = Inr (clean_up x y s)"
  using assms by (simp add: download_complete_def)


subsection \<open>Starting a fetch on a tile whose worker is live\<close>

text \<open>
  Claim C10. When the tile's thread handle is still live, \<open>update_wallpaper\<close> leaves
  every tile of the grid as it was, asks the host for nothing but one timer arming, and
  that arming is the fixed retry timeout of 1000 ms: no descriptor, stream, event source
  or thread is created.
\<close>

theorem update_wallpaper_live_thread:
  assumes "thread (tile_at s x y)"
  shows "update_wallpaper h x y s =
           s\<lparr>timer := Some 1000, effects := effects s @ [Timer_Set 1000]\<rparr>"
  using assms
  by (simp add: update_wallpaper_def set_timeout_def emit_def RETRY_TIMEOUT_def)

theorem update_wallpaper_live_thread_witness:
  "thread (tile_at (screen_of [[fetching_tile]]) 0 0) \<and>
   update_wallpaper host_ok 0 0 (screen_of [[fetching_tile]]) =
     (screen_of [[fetching_tile]])\<lparr>timer := Some 1000, effects := [Timer_Set 1000]\<rparr>"
proof -
  have live: "thread (tile_at (screen_of [[fetching_tile]]) 0 0)"
    by (simp add: tile_at_def screen_of_def fetching_tile_def)
  from update_wallpaper_live_thread [OF live, of host_ok] live show ?thesis
    by (simp add: screen_of_def)
qed

subsection \<open>Loops over the grid\<close>

lemma distinct_grid_positions: "distinct (grid_positions s)"
proof -
  have "distinct (concat (map (\<lambda>x. map (\<lambda>y. (x, y)) (c x)) xs))"
    if "distinct xs" "\<And>x. distinct (c x)" for xs :: "nat list" and c :: "nat \<Rightarrow> nat list"
    using that by (induction xs) (auto simp: distinct_map inj_on_def)
  then show ?thesis by (simp add: grid_positions_def)
qed

lemma set_grid_positions: "(x, y) \<in> set (grid_positions s) \<longleftrightarrow> in_grid s x y"
  by (force simp: grid_positions_def in_grid_def)

lemma fold_grid_tile:
  fixes f :: "nat \<times> nat \<Rightarrow> screen \<Rightarrow> screen"
  assumes frame: "\<And>p x y t. (x, y) \<noteq> p \<Longrightarrow> tile_at (f p t) x y = tile_at t x y"
    and grid: "\<And>p x y t. in_grid (f p t) x y = in_grid t x y"
    and own: "\<And>x y t. in_grid t x y \<Longrightarrow> tile_at (f (x, y) t) x y = g x y (tile_at t x y)"
    and "distinct ps" "in_grid s x y"
  shows "tile_at (fold f ps s) x y =
           (if (x, y) \<in> set ps then g x y (tile_at s x y) else tile_at s x y)"
  using assms(4,5)
proof (induction ps arbitrary: s)
  case Nil
  then show ?case by simp
next
  case (Cons p ps)
  have g': "in_grid (f p s) x y" using Cons.prems grid by simp
  show ?case
  proof (cases "p = (x, y)")
    case True
    with Cons.prems have "(x, y) \<notin> set ps" by simp
    with Cons.IH [OF _ g'] Cons.prems True own show ?thesis by simp
  next
    case False
    then have "tile_at (f p s) x y = tile_at s x y" using frame by simp
    with Cons.IH [OF _ g'] Cons.prems False show ?thesis by simp
  qed
qed

lemma new_effects_append [simp]: "effects s' = effects s @ es \<Longrightarrow> new_effects s s' = es"
  by (simp add: new_effects_def)

lemma fold_grid_grow:
  fixes f :: "nat \<times> nat \<Rightarrow> screen \<Rightarrow> screen"
  assumes grow: "\<And>p t. \<exists>es. effects (f p t) = effects t @ es"
  shows "\<exists>es. effects (fold f ps s) = effects s @ es"
proof (induction ps arbitrary: s)
  case Nil
  then show ?case by simp
next
  case (Cons p ps)
  from grow obtain e1 where "effects (f p s) = effects s @ e1" by blast
  moreover from Cons.IH obtain e2 where "effects (fold f ps (f p s)) = effects (f p s) @ e2"
    by blast
  ultimately show ?case by simp
qed

lemma fold_grid_effects:
  fixes f :: "nat \<times> nat \<Rightarrow> screen \<Rightarrow> screen"
  assumes frame: "\<And>p x y t. (x, y) \<noteq> p \<Longrightarrow> tile_at (f p t) x y = tile_at t x y"
    and grid: "\<And>p x y t. in_grid (f p t) x y = in_grid t x y"
    and grow: "\<And>p t. \<exists>es. effects (f p t) = effects t @ es"
    and own: "\<And>x y t. in_grid t x y \<Longrightarrow>
                set (e x y (tile_at t x y)) \<subseteq> set (new_effects t (f (x, y) t))"
    and "in_grid s x y" "(x, y) \<in> set ps"
  shows "set (e x y (tile_at s x y)) \<subseteq> set (new_effects s (fold f ps s))"
  using assms(5,6)
proof (induction ps arbitrary: s)
  case Nil
  then show ?case by simp
next
  case (Cons p ps)
  from grow obtain e1 where e1: "effects (f p s) = effects s @ e1" by blast
  from fold_grid_grow [of f, OF grow] obtain e2
    where e2: "effects (fold f ps (f p s)) = effects (f p s) @ e2" by blast
  from e1 e2 have all: "new_effects s (fold f (p # ps) s) = e1 @ e2" by simp
  show ?case
  proof (cases "p = (x, y)")
    case True
    from own [OF Cons.prems(1)] e1 True have "set (e x y (tile_at s x y)) \<subseteq> set e1" by simp
    with all show ?thesis by auto
  next
    case False
    with Cons.prems have mem: "(x, y) \<in> set ps" by auto
    have g': "in_grid (f p s) x y" using Cons.prems grid by simp
    from False have "tile_at (f p s) x y = tile_at s x y" using frame by simp
    with Cons.IH [OF g' mem] e2 have "set (e x y (tile_at s x y)) \<subseteq> set e2" by simp
    with all show ?thesis by auto
  qed
qed

lemma fold_grid_tile_inv:
  fixes f :: "nat \<times> nat \<Rightarrow> screen \<Rightarrow> screen"
  assumes frame: "\<And>p x y t. (x, y) \<noteq> p \<Longrightarrow> tile_at (f p t) x y = tile_at t x y"
    and grid: "\<And>p x y t. in_grid (f p t) x y = in_grid t x y"
    and inv: "\<And>p t. Inv t \<Longrightarrow> Inv (f p t)"
    and own: "\<And>x y t. Inv t \<Longrightarrow> in_grid t x y \<Longrightarrow>
                tile_at (f (x, y) t) x y = g x y (tile_at t x y)"
    and "distinct ps" "in_grid s x y" "Inv s"
  shows "tile_at (fold f ps s) x y =
           (if (x, y) \<in> set ps then g x y (tile_at s x y) else tile_at s x y)"
  using assms(5,6,7)
proof (induction ps arbitrary: s)
  case Nil
  then show ?case by simp
next
  case (Cons p ps)
  have g': "in_grid (f p s) x y" using Cons.prems grid by simp
  have i': "Inv (f p s)" using Cons.prems inv by simp
  show ?case
  proof (cases "p = (x, y)")
    case True
    with Cons.prems have "(x, y) \<notin> set ps" by simp
    with Cons.IH [OF _ g' i'] Cons.prems True own show ?thesis by simp
  next
    case False
    then have "tile_at (f p s) x y = tile_at s x y" using frame by simp
    with Cons.IH [OF _ g' i'] Cons.prems False show ?thesis by simp
  qed
qed

subsection \<open>The timer's callback\<close>

text \<open>
  \<open>update_textures\<close> starts a fetch, for the output's geometry, on every tile that is
  neither marked downloaded nor being fetched.
\<close>

lemma update_wallpaper_grows: "\<exists>es. effects (update_wallpaper h x y s) = effects s @ es"
  by (simp add: update_wallpaper_def Let_def)

lemma update_texture_frame:
  "(x', y') \<noteq> (x, y) \<Longrightarrow> tile_at (update_texture h x y t) x' y' = tile_at t x' y'"
  by (auto simp: update_texture_def Let_def)

lemma update_texture_grid: "in_grid (update_texture h x y t) x' y' = in_grid t x' y'"
  by (simp add: update_texture_def Let_def)

lemma update_texture_geometry: "output_geometry (update_texture h x y t) = output_geometry t"
  by (simp add: update_texture_def Let_def)

lemma update_texture_grows: "\<exists>es. effects (update_texture h x y t) = effects t @ es"
proof -
  let ?t = "put_tile x y ((tile_at t x y)\<lparr>failed_counter := 0\<rparr>) t"
  from update_wallpaper_grows [of h x y ?t] obtain es
    where "effects (update_wallpaper h x y ?t) = effects t @ es" by auto
  then show ?thesis by (auto simp: update_texture_def Let_def)
qed

lemma update_texture_own:
  assumes "in_grid t x y"
  shows "tile_at (update_texture h x y t) x y =
     (let w0 = (tile_at t x y)\<lparr>failed_counter := 0\<rparr> in
      if downloaded w0 \<or> thread w0 then w0
      else if eventfd h x y = - 1 then w0\<lparr>sig_fd := - 1\<rparr>
      else if \<not> open_memstream h x y then w0\<lparr>sig_fd := eventfd h x y, image_fp := None\<rparr>
      else w0\<lparr>sig_fd := eventfd h x y, image_fp := Some [], geometry := output_geometry t,
              event_source := eventfd h x y, thread := True\<rparr>)"
  using assms by (simp add: update_texture_def update_wallpaper_def Let_def)

lemma update_texture_starts:
  assumes "in_grid t x y" "\<not> downloaded (tile_at t x y)" "\<not> thread (tile_at t x y)"
    "eventfd h x y \<noteq> - 1" "open_memstream h x y"
  shows "Thread_Started x y \<in> set (new_effects t (update_texture h x y t))"
  using assms by (simp add: update_texture_def update_wallpaper_def Let_def new_effects_def)

lemma update_textures_fetches:
  assumes grid: "in_grid s x y"
    and idle: "\<not> downloaded (tile_at s x y)" "\<not> thread (tile_at s x y)"
    and host: "eventfd h x y \<noteq> - 1" "open_memstream h x y"
  shows "tile_at (update_textures h s) x y =
           (tile_at s x y)\<lparr>failed_counter := 0, sig_fd := eventfd h x y, image_fp := Some [],
              geometry := output_geometry s, event_source := eventfd h x y, thread := True\<rparr>"
    and "Thread_Started x y \<in> set (new_effects s (update_textures h s))"
    and "output_geometry (update_textures h s) = output_geometry s"
proof -
  let ?s1 = "if is_connected s then disconnect s else s"
  let ?f = "\<lambda>(x, y). update_texture h x y"
  let ?og = "output_geometry s"
  let ?g = "\<lambda>x y wp.
     (let w0 = wp\<lparr>failed_counter := 0\<rparr> in
      if downloaded w0 \<or> thread w0 then w0
      else if eventfd h x y = - 1 then w0\<lparr>sig_fd := - 1\<rparr>
      else if \<not> open_memstream h x y then w0\<lparr>sig_fd := eventfd h x y, image_fp := None\<rparr>
      else w0\<lparr>sig_fd := eventfd h x y, image_fp := Some [], geometry := ?og,
              event_source := eventfd h x y, thread := True\<rparr>)"
  let ?e = "\<lambda>x y wp. if \<not> downloaded wp \<and> \<not> thread wp \<and> eventfd h x y \<noteq> - 1 \<and>
                          open_memstream h x y then [Thread_Started x y] else []"
  let ?t = "fold ?f (grid_positions ?s1) ?s1"
  have s1: "tile_at ?s1 x' y' = tile_at s x' y'" "in_grid ?s1 x' y' = in_grid s x' y'"
    "output_geometry ?s1 = ?og" "grid_positions ?s1 = grid_positions s"
    "\<exists>es. effects ?s1 = effects s @ es" for x' y'
    by (simp_all add: grid_positions_def)
  have unfold: "update_textures h s = emit [Damage_Whole] ?t"
    by (simp add: update_textures_def Let_def)
  have frame: "tile_at (?f p t) x y = tile_at t x y" if "(x, y) \<noteq> p" for p x y t
    using that by (cases p) (simp add: update_texture_frame)
  have grd: "in_grid (?f p t) x y = in_grid t x y" for p x y t
    by (cases p) (simp add: update_texture_grid)
  have grow: "\<exists>es. effects (?f p t) = effects t @ es" for p t
    by (cases p) (simp add: update_texture_grows)
  have "tile_at ?t x y =
          (if (x, y) \<in> set (grid_positions ?s1) then ?g x y (tile_at ?s1 x y)
           else tile_at ?s1 x y)"
  proof (rule fold_grid_tile_inv
      [where f = ?f and g = ?g and Inv = "\<lambda>t. output_geometry t = ?og"])
    show "tile_at (?f p t) x y = tile_at t x y" if "(x, y) \<noteq> p" for p x y t
      using that by (rule frame)
    show "in_grid (?f p t) x y = in_grid t x y" for p x y t by (rule grd)
    show "output_geometry (?f p t) = ?og" if "output_geometry t = ?og" for p t
      using that by (cases p) (simp add: update_texture_geometry)
    show "tile_at (?f (x, y) t) x y = ?g x y (tile_at t x y)"
      if "output_geometry t = ?og" "in_grid t x y" for x y t
      using that by (simp add: update_texture_own Let_def)
    show "distinct (grid_positions ?s1)" by (rule distinct_grid_positions)
    show "in_grid ?s1 x y" using grid by (simp add: s1)
    show "output_geometry ?s1 = ?og" by (simp add: s1)
  qed
  with grid idle host
  show "tile_at (update_textures h s) x y =
           (tile_at s x y)\<lparr>failed_counter := 0, sig_fd := eventfd h x y, image_fp := Some [],
              geometry := output_geometry s, event_source := eventfd h x y, thread := True\<rparr>"
    by (simp add: unfold s1 set_grid_positions Let_def)
  have "set (?e x y (tile_at ?s1 x y)) \<subseteq> set (new_effects ?s1 ?t)"
  proof (rule fold_grid_effects [where f = ?f and e = ?e])
    show "tile_at (?f p t) x y = tile_at t x y" if "(x, y) \<noteq> p" for p x y t
      using that by (rule frame)
    show "in_grid (?f p t) x y = in_grid t x y" for p x y t by (rule grd)
    show "\<exists>es. effects (?f p t) = effects t @ es" for p t by (rule grow)
    show "set (?e x y (tile_at t x y)) \<subseteq> set (new_effects t (?f (x, y) t))"
      if "in_grid t x y" for x y t
      using that by (auto simp: update_texture_starts)
    show "in_grid ?s1 x y" using grid by (simp add: s1)
    show "(x, y) \<in> set (grid_positions ?s1)" using grid by (simp add: s1 set_grid_positions)
  qed
  moreover from s1(5) obtain e1 where e1: "effects ?s1 = effects s @ e1" by blast
  moreover from fold_grid_grow [of ?f, OF grow] obtain e2
    where e2: "effects ?t = effects ?s1 @ e2" by blast
  moreover from e1 e2 have "new_effects s (update_textures h s) = e1 @ e2 @ [Damage_Whole]"
    by (simp add: unfold)
  ultimately show "Thread_Started x y \<in> set (new_effects s (update_textures h s))"
    using idle host e2 by (simp add: s1)
  have "output_geometry (fold ?f ps t) = output_geometry t" for ps t
  proof (induction ps arbitrary: t)
    case Nil
    show ?case by simp
  next
    case (Cons p ps)
    show ?case by (cases p) (simp add: Cons.IH update_texture_geometry)
  qed
  then show "output_geometry (update_textures h s) = output_geometry s"
    by (simp add: unfold s1)
qed

lemma failure_frame:
  "in_grid (download_failure h x y t) x' y' = in_grid t x' y'"
  "output_geometry (download_failure h x y t) = output_geometry t"
  by (simp_all add: download_failure_def Let_def is_connected_def)

lemma timer_retries_after_backoff:
  assumes grid: "in_grid t x y" and gt: "failed_counter (tile_at t x y) + 1 > 3"
    and idle: "\<not> downloaded (tile_at t x y)"
    and host: "eventfd h' x y \<noteq> - 1" "open_memstream h' x y"
  shows "thread (tile_at (cycle_timeout h' (download_failure h x y t)) x y)"
    and "failed_counter (tile_at (cycle_timeout h' (download_failure h x y t)) x y) = 0"
    and "geometry (tile_at (cycle_timeout h' (download_failure h x y t)) x y) = output_geometry t"
    and "output_geometry (cycle_timeout h' (download_failure h x y t)) = output_geometry t"
    and "Thread_Started x y \<in>
           set (new_effects (download_failure h x y t) (cycle_timeout h' (download_failure h x y t)))"
proof -
  let ?s' = "download_failure h x y t"
  have g: "in_grid ?s' x y" using grid by (simp add: failure_frame)
  have nd: "\<not> downloaded (tile_at ?s' x y)" using idle by (simp add: failure_downloaded [OF grid])
  have nt: "\<not> thread (tile_at ?s' x y)" by (rule failure_backoff(1) [OF grid gt])
  note f = update_textures_fetches [OF g nd nt host]
  show "thread (tile_at (cycle_timeout h' ?s') x y)"
    "failed_counter (tile_at (cycle_timeout h' ?s') x y) = 0"
    "geometry (tile_at (cycle_timeout h' ?s') x y) = output_geometry t"
    "output_geometry (cycle_timeout h' ?s') = output_geometry t"
    "Thread_Started x y \<in> set (new_effects ?s' (cycle_timeout h' ?s'))"
    using f by (simp_all add: cycle_timeout_def failure_frame)
qed

subsection \<open>The failure path: immediate retry, then the timer\<close>




subsection \<open>A tile fetched for a geometry the output no longer has\<close>

text \<open>
  Claim C7. When the handler runs (worker tracked, no shutdown) for a tile whose recorded
  width or height differs from the output's, the geometry test sets
  \<open>download_failed\<close>, and whatever the worker left in the flag and in the stream the
  handler takes the failure path: the counter goes up by one and the downloaded mark is
  left as it was. While the counter is at most 3 (and the host grants the descriptor
  and the stream) the handler starts the retry at once, and the new fetch records the
  output's current geometry, so the tile is no longer stale. Above 3 the handler starts
  no thread and leaves the shared timer connected; the timer's callback
  \<open>cycle_timeout\<close> (lines 513-516) then starts the fetch of the tile (not marked
  downloaded, as a tile with a live worker never is, see the last subsection), and that
  fetch records the geometry of the output, so the tile is no longer stale either.
\<close>

theorem stale_geometry_fails_and_retries:
  assumes "in_grid s x y" "thread (tile_at s x y)" "\<not> wallpaper_shutdown s"
    and "stale_geometry s x y"
  shows "download_failed (tile_at (check_geometry x y (fflush_image x y s)) x y) \<and>
         (\<exists>s'. download_complete h x y True s = Inr s' \<and>
            s' = download_failure h x y (check_geometry x y (fflush_image x y s)) \<and>
            failed_counter (tile_at s' x y) = failed_counter (tile_at s x y) + 1 \<and>
            downloaded (tile_at s' x y) = downloaded (tile_at s x y) \<and>
            (failed_counter (tile_at s' x y) \<le> 3 \<and> eventfd h x y \<noteq> - 1 \<and> open_memstream h x y \<longrightarrow>
               thread (tile_at s' x y) \<and> Thread_Started x y \<in> set (new_effects s s') \<and>
               geometry (tile_at s' x y) = output_geometry s' \<and>
               \<not> stale_geometry s' x y) \<and>
            (failed_counter (tile_at s' x y) > 3 \<longrightarrow>
               \<not> thread (tile_at s' x y) \<and> timer s' \<noteq> None \<and>
               (\<not> downloaded (tile_at s x y) \<and> eventfd h' x y \<noteq> - 1 \<and>
                open_memstream h' x y \<longrightarrow>
                  thread (tile_at (cycle_timeout h' s') x y) \<and>
                  Thread_Started x y \<in> set (new_effects s' (cycle_timeout h' s')) \<and>
                  geometry (tile_at (cycle_timeout h' s') x y) = output_geometry s \<and>
                  \<not> stale_geometry (cycle_timeout h' s') x y)))"
proof -
  let ?t = "check_geometry x y (fflush_image x y s)"
  let ?s' = "download_failure h x y ?t"
  have flag: "download_failed (tile_at ?t x y)"
    using assms by (simp add: checked_tile)
  have path: "download_complete h x y True s = Inr ?s'"
    using assms by (simp add: handler_failure_path)
  have grid: "in_grid ?t x y"
    using assms(1) by (simp add: checked_fields)
  have same: "failed_counter (tile_at ?t x y) = failed_counter (tile_at s x y)"
    "downloaded (tile_at ?t x y) = downloaded (tile_at s x y)"
    using assms(1) by (simp_all add: checked_tile)
  have cnt: "failed_counter (tile_at ?s' x y) = failed_counter (tile_at s x y) + 1"
    using failure_counter [OF grid, of h] same by simp
  have dl: "downloaded (tile_at ?s' x y) = downloaded (tile_at s x y)"
    using failure_downloaded [OF grid, of h] same by simp
  have og: "output_geometry ?s' = output_geometry ?t"
    by (simp add: download_failure_def Let_def is_connected_def)
  have retry: "thread (tile_at ?s' x y) \<and> Thread_Started x y \<in> set (new_effects s ?s') \<and>
      geometry (tile_at ?s' x y) = output_geometry ?s' \<and> \<not> stale_geometry ?s' x y"
    if "failed_counter (tile_at ?s' x y) \<le> 3" "eventfd h x y \<noteq> - 1" "open_memstream h x y"
  proof -
    from that(1) cnt same have le: "failed_counter (tile_at ?t x y) + 1 \<le> 3" by simp
    note r = failure_retry [OF grid le that(2) that(3)]
    from r(2) og have "geometry (tile_at ?s' x y) = output_geometry ?s'" by simp
    with r(1) r(5) show ?thesis
      by (simp add: new_effects_def checked_fields stale_geometry_def)
  qed
  have backoff: "\<not> thread (tile_at ?s' x y) \<and> timer ?s' \<noteq> None \<and>
      (\<not> downloaded (tile_at s x y) \<and> eventfd h' x y \<noteq> - 1 \<and> open_memstream h' x y \<longrightarrow>
         thread (tile_at (cycle_timeout h' ?s') x y) \<and>
         Thread_Started x y \<in> set (new_effects ?s' (cycle_timeout h' ?s')) \<and>
         geometry (tile_at (cycle_timeout h' ?s') x y) = output_geometry s \<and>
         \<not> stale_geometry (cycle_timeout h' ?s') x y)"
    if "failed_counter (tile_at ?s' x y) > 3"
  proof -
    from that cnt same have gt: "failed_counter (tile_at ?t x y) + 1 > 3" by simp
    have handler: "\<not> thread (tile_at ?s' x y) \<and> timer ?s' \<noteq> None"
      using failure_backoff [OF grid gt, of h] by (cases "timer ?t") auto
    have expiry: "thread (tile_at (cycle_timeout h' ?s') x y) \<and>
        Thread_Started x y \<in> set (new_effects ?s' (cycle_timeout h' ?s')) \<and>
        geometry (tile_at (cycle_timeout h' ?s') x y) = output_geometry s \<and>
        \<not> stale_geometry (cycle_timeout h' ?s') x y"
      if "\<not> downloaded (tile_at s x y)" "eventfd h' x y \<noteq> - 1" "open_memstream h' x y"
    proof -
      from that(1) same have nd: "\<not> downloaded (tile_at ?t x y)" by simp
      note e = timer_retries_after_backoff [OF grid gt nd that(2) that(3), of h]
      from e show ?thesis
        by (simp add: stale_geometry_def checked_fields)
    qed
    from handler expiry show ?thesis by blast
  qed
  from flag path cnt dl retry backoff show ?thesis by blast
qed

theorem stale_geometry_fails_and_retries_witness:
  "in_grid resized_screen 0 0 \<and> thread (tile_at resized_screen 0 0) \<and>
   \<not> wallpaper_shutdown resized_screen \<and> stale_geometry resized_screen 0 0 \<and>
   \<not> failed_or_empty resized_screen 0 0 \<and>
   (\<exists>s'. download_complete host_ok 0 0 True resized_screen = Inr s' \<and>
      failed_counter (tile_at s' 0 0) = 1 \<and> \<not> downloaded (tile_at s' 0 0) \<and>
      thread (tile_at s' 0 0) \<and> geometry (tile_at s' 0 0) = box_1024) \<and>
   in_grid resized_late_screen 0 0 \<and> thread (tile_at resized_late_screen 0 0) \<and>
   \<not> wallpaper_shutdown resized_late_screen \<and> stale_geometry resized_late_screen 0 0 \<and>
   \<not> failed_or_empty resized_late_screen 0 0 \<and>
   \<not> downloaded (tile_at resized_late_screen 0 0) \<and>
   (\<exists>s'. download_complete host_ok 0 0 True resized_late_screen = Inr s' \<and>
      failed_counter (tile_at s' 0 0) = 4 \<and> \<not> thread (tile_at s' 0 0) \<and>
      timer s' \<noteq> None \<and>
      thread (tile_at (cycle_timeout host_ok s') 0 0) \<and>
      geometry (tile_at (cycle_timeout host_ok s') 0 0) = box_1024)"
proof -
  have h1: "in_grid resized_screen 0 0"
    by (simp add: in_grid_def resized_screen_def screen_of_def)
  have h2: "thread (tile_at resized_screen 0 0)"
    by (simp add: tile_at_def resized_screen_def screen_of_def fetching_tile_def)
  have h3: "\<not> wallpaper_shutdown resized_screen"
    by (simp add: resized_screen_def screen_of_def)
  have h4: "stale_geometry resized_screen 0 0"
    by (simp add: stale_geometry_def tile_at_def resized_screen_def screen_of_def
        fetching_tile_def box_800_def box_1024_def)
  have h5: "\<not> failed_or_empty resized_screen 0 0"
    by (simp add: failed_or_empty_def stream_size_def tile_at_def resized_screen_def
        screen_of_def fetching_tile_def junk_tile_def jpeg_body_def)
  have vals: "failed_counter (tile_at resized_screen 0 0) = 0"
    "\<not> downloaded (tile_at resized_screen 0 0)"
    "eventfd host_ok 0 0 \<noteq> - 1" "open_memstream host_ok 0 0"
    by (simp_all add: tile_at_def resized_screen_def screen_of_def fetching_tile_def
        junk_tile_def host_ok_def)
  have og: "output_geometry (download_failure host_ok 0 0 t) = output_geometry t" for t
    by (simp add: download_failure_def Let_def is_connected_def)
  from stale_geometry_fails_and_retries [OF h1 h2 h3 h4, of host_ok host_ok] vals
  have early: "\<exists>s'. download_complete host_ok 0 0 True resized_screen = Inr s' \<and>
      failed_counter (tile_at s' 0 0) = 1 \<and> \<not> downloaded (tile_at s' 0 0) \<and>
      thread (tile_at s' 0 0) \<and> geometry (tile_at s' 0 0) = box_1024"
    by (auto simp: og checked_fields resized_screen_def screen_of_def)
  have g1: "in_grid resized_late_screen 0 0" by code_simp
  have g2: "thread (tile_at resized_late_screen 0 0)" by code_simp
  have g3: "\<not> wallpaper_shutdown resized_late_screen" by code_simp
  have g4: "stale_geometry resized_late_screen 0 0" by code_simp
  have g5: "\<not> failed_or_empty resized_late_screen 0 0" by code_simp
  have g6: "\<not> downloaded (tile_at resized_late_screen 0 0)" by code_simp
  have vals': "failed_counter (tile_at resized_late_screen 0 0) = 3"
    "eventfd host_ok 0 0 \<noteq> - 1" "open_memstream host_ok 0 0"
    "output_geometry resized_late_screen = box_1024"
    by code_simp+
  from stale_geometry_fails_and_retries [OF g1 g2 g3 g4, of host_ok host_ok] vals' g6
  have late: "\<exists>s'. download_complete host_ok 0 0 True resized_late_screen = Inr s' \<and>
      failed_counter (tile_at s' 0 0) = 4 \<and> \<not> thread (tile_at s' 0 0) \<and>
      timer s' \<noteq> None \<and>
      thread (tile_at (cycle_timeout host_ok s') 0 0) \<and>
      geometry (tile_at (cycle_timeout host_ok s') 0 0) = box_1024"
    by auto
  from h1 h2 h3 h4 h5 early g1 g2 g3 g4 g5 g6 late show ?thesis by blast
qed

subsection \<open>The loop of \<open>fini\<close>\<close>

lemma fini_tile_frame:
  "(x', y') \<noteq> (x, y) \<Longrightarrow> tile_at (fini_tile x y t) x' y' = tile_at t x' y'"
  by (auto simp: fini_tile_def Let_def)

lemma fini_tile_grid: "in_grid (fini_tile x y t) x' y' = in_grid t x' y'"
  by (simp add: fini_tile_def Let_def)

lemma fini_tile_own:
  "in_grid t x y \<Longrightarrow>
   tile_at (fini_tile x y t) x y =
     (if thread (tile_at t x y)
      then (tile_at t x y)\<lparr>thread := False, image_size := stream_size (tile_at t x y)\<rparr>
      else tile_at t x y)\<lparr>from_tex := None, to_tex := None, tmp_tex := None\<rparr>"
  by (simp add: fini_tile_def Let_def)

lemma fini_tile_effects:
  "effects (fini_tile x y t) = effects t @
     (if thread (tile_at t x y)
      then [Event_Source_Removed x y, Thread_Joined x y, Stream_Closed x y, Buffer_Freed x y,
            Fd_Closed (sig_fd (tile_at t x y))]
      else []) @ [View_Closed x y]"
  by (simp add: fini_tile_def Let_def)

lemma fini_start_simps:
  "wallpapers (fini_start s) = wallpapers s"
  "\<exists>es. effects (fini_start s) = effects s @ es"
  by (simp_all add: fini_start_def deactivate_def)

lemma fini_start_grid:
  "in_grid (fini_start s) x y = in_grid s x y"
  "tile_at (fini_start s) x y = tile_at s x y"
  "grid_positions (fini_start s) = grid_positions s"
  by (simp_all add: in_grid_def tile_at_def grid_positions_def fini_start_simps)

lemma fini_unfold:
  "fini s = emit [Damage_Whole] (fold (\<lambda>(x, y). fini_tile x y) (grid_positions s) (fini_start s))"
proof -
  have "fini s = emit [Damage_Whole]
      (fold (\<lambda>(x, y). fini_tile x y) (grid_positions (fini_start s)) (fini_start s))"
    unfolding fini_def Let_def ..
  then show ?thesis by (simp only: fini_start_grid)
qed

lemma fini_tile_at:
  assumes "in_grid s x y"
  shows "tile_at (fini s) x y =
     (if thread (tile_at s x y)
      then (tile_at s x y)\<lparr>thread := False, image_size := stream_size (tile_at s x y)\<rparr>
      else tile_at s x y)\<lparr>from_tex := None, to_tex := None, tmp_tex := None\<rparr>"
proof -
  let ?f = "\<lambda>(x, y). fini_tile x y"
  let ?g = "\<lambda>(x :: nat) (y :: nat) wp.
     (if thread wp then wp\<lparr>thread := False, image_size := stream_size wp\<rparr> else wp)
       \<lparr>from_tex := None, to_tex := None, tmp_tex := None\<rparr>"
  have "tile_at (fold ?f (grid_positions s) (fini_start s)) x y =
          (if (x, y) \<in> set (grid_positions s) then ?g x y (tile_at (fini_start s) x y)
           else tile_at (fini_start s) x y)"
  proof (rule fold_grid_tile [where f = ?f and g = ?g])
    show "tile_at (?f p t) x y = tile_at t x y" if "(x, y) \<noteq> p" for p x y t
      using that by (cases p) (simp add: fini_tile_frame)
    show "in_grid (?f p t) x y = in_grid t x y" for p x y t
      by (cases p) (simp add: fini_tile_grid)
    show "tile_at (?f (x, y) t) x y = ?g x y (tile_at t x y)" if "in_grid t x y" for x y t
      using that by (simp add: fini_tile_own)
    show "distinct (grid_positions s)" by (rule distinct_grid_positions)
    show "in_grid (fini_start s) x y" using assms by (simp add: fini_start_grid)
  qed
  with assms show ?thesis
    by (simp add: fini_unfold set_grid_positions fini_start_grid)
qed

lemma fini_joins:
  assumes "in_grid s x y" "thread (tile_at s x y)"
  shows "set [Event_Source_Removed x y, Thread_Joined x y, Stream_Closed x y, Buffer_Freed x y,
              Fd_Closed (sig_fd (tile_at s x y))] \<subseteq> set (new_effects s (fini s))"
proof -
  let ?f = "\<lambda>(x, y). fini_tile x y"
  let ?e = "\<lambda>x y wp. if thread wp
      then [Event_Source_Removed x y, Thread_Joined x y, Stream_Closed x y, Buffer_Freed x y,
            Fd_Closed (sig_fd wp)] else []"
  let ?t = "fold ?f (grid_positions s) (fini_start s)"
  have grow: "\<exists>es. effects (?f p t) = effects t @ es" for p t
    by (cases p) (simp add: fini_tile_effects)
  have "set (?e x y (tile_at (fini_start s) x y)) \<subseteq> set (new_effects (fini_start s) ?t)"
  proof (rule fold_grid_effects [where f = ?f and e = ?e])
    show "tile_at (?f p t) x y = tile_at t x y" if "(x, y) \<noteq> p" for p x y t
      using that by (cases p) (simp add: fini_tile_frame)
    show "in_grid (?f p t) x y = in_grid t x y" for p x y t
      by (cases p) (simp add: fini_tile_grid)
    show "\<exists>es. effects (?f p t) = effects t @ es" for p t by (rule grow)
    show "set (?e x y (tile_at t x y)) \<subseteq> set (new_effects t (?f (x, y) t))" for x y t
      by (auto simp: fini_tile_effects)
    show "in_grid (fini_start s) x y" using assms by (simp add: fini_start_grid)
    show "(x, y) \<in> set (grid_positions s)" using assms by (simp add: set_grid_positions)
  qed
  moreover from fini_start_simps(2) obtain e1 where e1: "effects (fini_start s) = effects s @ e1"
    by blast
  moreover from fold_grid_grow [of ?f, OF grow] obtain e2
    where e2: "effects ?t = effects (fini_start s) @ e2" by blast
  moreover from e1 e2 have "new_effects s (fini s) = e1 @ e2 @ [Damage_Whole]"
    by (simp add: fini_unfold)
  ultimately show ?thesis using assms e2 by (simp add: fini_start_grid) 
qed

lemma fini_tile_shutdown: "wallpaper_shutdown (fini_tile x y t) = wallpaper_shutdown t"
  by (simp add: fini_tile_def Let_def)

lemma fini_shutdown: "wallpaper_shutdown (fini s)"
proof -
  have "wallpaper_shutdown (fold (\<lambda>(x, y). fini_tile x y) ps t) = wallpaper_shutdown t"
    for ps t
  proof (induction ps arbitrary: t)
    case Nil
    show ?case by simp
  next
    case (Cons p ps)
    show ?case by (cases p) (simp add: Cons.IH fini_tile_shutdown)
  qed
  then show ?thesis by (simp add: fini_unfold fini_start_def)
qed


subsection \<open>Shutdown\<close>

text \<open>
  Claim C5. For a tile of the grid: if its worker is tracked and shutdown has been
  requested when its notification is handled, the handler does the cleanup and nothing
  else. The host sees the event source removed, the thread joined, the stream closed,
  the buffer freed and the descriptor closed; no fetch is started, no texture of any
  tile moves, the timer is untouched: the only change to the grid is that this tile's
  thread handle is null (and \<open>image_size\<close> is what the closed stream reports). And
  \<open>fini\<close> sets the shutdown flag and leaves the tile without a thread handle; if the
  tile had a live worker when \<open>fini\<close> was called, the same five releases are among
  the effects of \<open>fini\<close>.
\<close>

theorem shutdown_joins_and_releases:
  assumes "in_grid s x y"
  shows "(thread (tile_at s x y) \<and> wallpaper_shutdown s \<longrightarrow>
            (\<exists>s'. download_complete h x y True s = Inr s' \<and>
               new_effects s s' =
                 [Event_Source_Removed x y, Thread_Joined x y, Stream_Closed x y,
                  Buffer_Freed x y, Fd_Closed (sig_fd (tile_at s x y))] \<and>
               timer s' = timer s \<and>
               (\<forall>x' y'. tile_at s' x' y' =
                  (if x' = x \<and> y' = y
                   then (tile_at s x y)\<lparr>thread := False,
                          image_size := stream_size (tile_at s x y)\<rparr>
                   else tile_at s x' y')))) \<and>
         wallpaper_shutdown (fini s) \<and>
         \<not> thread (tile_at (fini s) x y) \<and>
         (thread (tile_at s x y) \<longrightarrow>
            set [Event_Source_Removed x y, Thread_Joined x y, Stream_Closed x y,
                 Buffer_Freed x y, Fd_Closed (sig_fd (tile_at s x y))]
              \<subseteq> set (new_effects s (fini s)))"
proof -
  have handler: "\<exists>s'. download_complete h x y True s = Inr s' \<and>
      new_effects s s' =
        [Event_Source_Removed x y, Thread_Joined x y, Stream_Closed x y,
         Buffer_Freed x y, Fd_Closed (sig_fd (tile_at s x y))] \<and>
      timer s' = timer s \<and>
      (\<forall>x' y'. tile_at s' x' y' =
         (if x' = x \<and> y' = y
          then (tile_at s x y)\<lparr>thread := False, image_size := stream_size (tile_at s x y)\<rparr>
          else tile_at s x' y'))"
    if "thread (tile_at s x y)" "wallpaper_shutdown s"
    using handler_shutdown_path [OF that, of h] assms by simp
  have "\<not> thread (tile_at (fini s) x y)"
    using fini_tile_at [OF assms] by simp
  with handler fini_shutdown [of s] fini_joins [OF assms] show ?thesis by blast
qed

theorem shutdown_joins_and_releases_witness:
  "in_grid closing_screen 0 0 \<and> thread (tile_at closing_screen 0 0) \<and>
   wallpaper_shutdown closing_screen \<and>
   (\<exists>s'. download_complete host_ok 0 0 True closing_screen = Inr s' \<and>
      new_effects closing_screen s' =
        [Event_Source_Removed 0 0, Thread_Joined 0 0, Stream_Closed 0 0, Buffer_Freed 0 0,
         Fd_Closed 3] \<and>
      \<not> thread (tile_at s' 0 0)) \<and>
   \<not> thread (tile_at (fini closing_screen) 0 0) \<and>
   Thread_Joined 0 0 \<in> set (new_effects closing_screen (fini closing_screen))"
proof -
  have h1: "in_grid closing_screen 0 0"
    by (simp add: in_grid_def closing_screen_def screen_of_def)
  have h2: "thread (tile_at closing_screen 0 0)"
    by (simp add: tile_at_def closing_screen_def screen_of_def fetching_tile_def)
  have h3: "wallpaper_shutdown closing_screen"
    by (simp add: closing_screen_def)
  have fd: "sig_fd (tile_at closing_screen 0 0) = 3"
    by (simp add: tile_at_def closing_screen_def screen_of_def fetching_tile_def)
  from shutdown_joins_and_releases [OF h1, of host_ok] h2 h3 fd
  have "(\<exists>s'. download_complete host_ok 0 0 True closing_screen = Inr s' \<and>
      new_effects closing_screen s' =
        [Event_Source_Removed 0 0, Thread_Joined 0 0, Stream_Closed 0 0, Buffer_Freed 0 0,
         Fd_Closed 3] \<and>
      \<not> thread (tile_at s' 0 0)) \<and>
   \<not> thread (tile_at (fini closing_screen) 0 0) \<and>
   Thread_Joined 0 0 \<in> set (new_effects closing_screen (fini closing_screen))"
    by auto
  with h1 h2 h3 show ?thesis by blast
qed

subsection \<open>The success path\<close>

lemma column_done_iff: "column_done col \<longleftrightarrow> (\<forall>y < length col. downloaded (col ! y))"
  by (induction col) (auto simp: less_Suc_eq_0_disj)

lemma all_done_iff:
  "all_done ws \<longleftrightarrow> (\<forall>x < length ws. \<forall>y < length (ws ! x). downloaded (ws ! x ! y))"
  by (induction ws) (auto simp: less_Suc_eq_0_disj column_done_iff)

lemma all_done_tiles:
  "all_done (wallpapers s) \<longleftrightarrow> (\<forall>x y. in_grid s x y \<longrightarrow> downloaded (tile_at s x y))"
  by (auto simp: all_done_iff in_grid_def tile_at_def)

lemma at_barrier_tile:
  "in_grid s x y \<Longrightarrow>
   tile_at (at_barrier x y s) x y =
     (tile_at s x y)\<lparr>image_size := stream_size (tile_at s x y),
        download_failed := (download_failed (tile_at s x y) \<or> stale_geometry s x y),
        downloaded := True, failed_counter := 0\<rparr>"
  by (simp add: at_barrier_def mark_downloaded_def checked_tile checked_fields)

lemma at_barrier_other:
  "x' \<noteq> x \<or> y' \<noteq> y \<Longrightarrow> tile_at (at_barrier x y s) x' y' = tile_at s x' y'"
  by (simp add: at_barrier_def mark_downloaded_def checked_other)

lemma at_barrier_fields:
  "timer (at_barrier x y s) = timer s"
  "hook_set (at_barrier x y s) = hook_set s"
  "cycle (at_barrier x y s) = cycle s"
  "cycle_time (at_barrier x y s) = cycle_time s"
  "output_geometry (at_barrier x y s) = output_geometry s"
  "in_grid (at_barrier x y s) x' y' = in_grid s x' y'"
  "effects (at_barrier x y s) = effects s @ [Stream_Flushed x y]"
  by (simp_all add: at_barrier_def mark_downloaded_def checked_fields)

lemma decode_image_None:
  "jpeg_decode h (stream_bytes (tile_at t x y)) = None \<Longrightarrow>
   decode_image h x y t = Inl Jpeg_Error_Exit"
  by (simp add: decode_image_def texture_from_jpeg_fp_def Let_def)

lemma decode_image_Some:
  assumes "jpeg_decode h (stream_bytes (tile_at t x y)) = Some r"
  shows "\<exists>tx. decode_image h x y t =
           Inr (emit [Texture_Uploaded x y] (put_tile x y ((tile_at t x y)\<lparr>tmp_tex := Some tx\<rparr>) t))"
  using assms
  by (cases r) (auto simp: decode_image_def texture_from_jpeg_fp_def Let_def)

lemma decode_image_Inr:
  assumes "decode_image h x y t = Inr sb"
  shows "\<exists>tx. sb = emit [Texture_Uploaded x y] (put_tile x y ((tile_at t x y)\<lparr>tmp_tex := Some tx\<rparr>) t)"
proof (cases "jpeg_decode h (stream_bytes (tile_at t x y))")
  case None
  with assms show ?thesis by (simp add: decode_image_None)
next
  case (Some r)
  from decode_image_Some [OF Some, of ] assms show ?thesis by auto
qed

lemma commit_tile:
  "in_grid s x y \<Longrightarrow> tile_at (commit s) x y = swap_textures (tile_at s x y)"
  by (simp add: commit_def Let_def activate_def tile_at_def in_grid_def set_timeout_def emit_def)

lemma commit_grid: "in_grid (commit s) x y = in_grid s x y"
  by (cases "x < length (wallpapers s)")
    (simp_all add: commit_def Let_def activate_def in_grid_def set_timeout_def emit_def)

lemma commit_effects:
  "effects (commit s) = effects s @ [Fade_Animate] @
     (if hook_set s then [] else [Hooks_Added, Damage_Wallpapers]) @
     (if cycle s then [Timer_Set (cycle_time s)] else [])"
  by (simp add: commit_def Let_def activate_def set_timeout_def emit_def)

lemma commit_timer:
  "timer (commit s) = (if cycle s then Some (cycle_time s) else timer s)"
  by (simp add: commit_def Let_def activate_def set_timeout_def emit_def)


lemma success_result:
  assumes "in_grid s x y" "thread (tile_at s x y)" "\<not> wallpaper_shutdown s"
    and "\<not> failed_or_empty s x y" "\<not> stale_geometry s x y"
    and "decode_image h x y (at_barrier x y s) = Inr sb"
  shows "download_complete h x y True s =
           Inr (clean_up x y (if all_done (wallpapers sb) then commit sb else sb))"
  using assms by (simp add: handler_success_path)

lemma decoded_state:
  assumes "in_grid s x y" "decode_image h x y (at_barrier x y s) = Inr sb"
  shows "in_grid sb x' y' = in_grid s x' y'"
    "x' \<noteq> x \<or> y' \<noteq> y \<Longrightarrow> tile_at sb x' y' = tile_at s x' y'"
    "\<exists>tx. tile_at sb x y = (tile_at (at_barrier x y s) x y)\<lparr>tmp_tex := Some tx\<rparr>"
    "effects sb = effects s @ [Stream_Flushed x y, Texture_Uploaded x y]"
    "timer sb = timer s" "cycle sb = cycle s" "cycle_time sb = cycle_time s"
    "hook_set sb = hook_set s"
proof -
  from decode_image_Inr [OF assms(2)] obtain tx where sb:
    "sb = emit [Texture_Uploaded x y]
            (put_tile x y ((tile_at (at_barrier x y s) x y)\<lparr>tmp_tex := Some tx\<rparr>) (at_barrier x y s))"
    by blast
  show "in_grid sb x' y' = in_grid s x' y'" by (simp add: sb at_barrier_fields)
  show "tile_at sb x' y' = tile_at s x' y'" if "x' \<noteq> x \<or> y' \<noteq> y"
    using that by (simp add: sb at_barrier_other)
  show "\<exists>tx. tile_at sb x y = (tile_at (at_barrier x y s) x y)\<lparr>tmp_tex := Some tx\<rparr>"
    using assms(1) by (auto simp: sb at_barrier_fields)
  show "effects sb = effects s @ [Stream_Flushed x y, Texture_Uploaded x y]"
    by (simp add: sb at_barrier_fields)
  show "timer sb = timer s" "cycle sb = cycle s" "cycle_time sb = cycle_time s"
    "hook_set sb = hook_set s"
    by (simp_all add: sb at_barrier_fields)
qed

lemma decoded_all_done:
  assumes "in_grid s x y" "decode_image h x y (at_barrier x y s) = Inr sb"
  shows "all_done (wallpapers sb) \<longleftrightarrow>
           (\<forall>x' y'. in_grid s x' y' \<and> (x' \<noteq> x \<or> y' \<noteq> y) \<longrightarrow> downloaded (tile_at s x' y'))"
proof -
  from decoded_state(3) [OF assms] assms(1) have own: "downloaded (tile_at sb x y)"
    by (auto simp: at_barrier_tile)
  show ?thesis
    unfolding all_done_tiles decoded_state(1) [OF assms]
    using own decoded_state(2) [OF assms] by metis
qed


lemma stream_bytes_at_barrier:
  "in_grid s x y \<Longrightarrow> stream_bytes (tile_at (at_barrier x y s) x y) = stream_bytes (tile_at s x y)"
  by (simp add: at_barrier_tile stream_bytes_def)

subsection \<open>The swap\<close>

text \<open>
  Claim C3. Let the handler run for a tile whose download succeeded, let \<open>sb\<close> be the
  state it has reached when the new image is decoded (the state before the commit), and
  let every tile be marked downloaded there, so that the commit happens. Then in the
  state the handler returns, for every tile of the grid: \<open>from\<close> is what \<open>to\<close> was in
  \<open>sb\<close>, \<open>to\<close> is what \<open>tmp\<close> was in \<open>sb\<close>, \<open>tmp\<close> is empty, and the tile is
  neither marked downloaded nor failed. In \<open>sb\<close> the slots are those of the state
  the handler started in, except that the handled tile's \<open>tmp\<close> holds the image just
  decoded.
\<close>

theorem commit_rotates_buffers:
  assumes "in_grid s x y" "thread (tile_at s x y)" "\<not> wallpaper_shutdown s"
    and "\<not> failed_or_empty s x y" "\<not> stale_geometry s x y"
    and dec: "decode_image h x y (at_barrier x y s) = Inr sb"
    and alld: "all_done (wallpapers sb)"
    and tile: "in_grid s x' y'"
  shows "\<exists>s'. download_complete h x y True s = Inr s' \<and>
           Fade_Animate \<in> set (new_effects s s') \<and>
           from_tex (tile_at s' x' y') = to_tex (tile_at sb x' y') \<and>
           to_tex (tile_at s' x' y') = tmp_tex (tile_at sb x' y') \<and>
           tmp_tex (tile_at s' x' y') = None \<and>
           \<not> downloaded (tile_at s' x' y') \<and>
           \<not> download_failed (tile_at s' x' y') \<and>
           to_tex (tile_at sb x' y') = to_tex (tile_at s x' y') \<and>
           (if x' = x \<and> y' = y then tmp_tex (tile_at sb x' y') \<noteq> None
            else tmp_tex (tile_at sb x' y') = tmp_tex (tile_at s x' y'))"
proof -
  let ?s' = "clean_up x y (commit sb)"
  note st = decoded_state [OF assms(1) dec]
  have res: "download_complete h x y True s = Inr ?s'"
    using success_result [OF assms(1-5) dec] alld by simp
  have gb: "in_grid sb x' y'" "in_grid sb x y" using tile assms(1) by (simp_all add: st(1))
  have fade: "Fade_Animate \<in> set (new_effects s ?s')"
    using alld by (simp add: new_effects_def commit_effects st(4))
  have swapped: "from_tex (tile_at ?s' x' y') = to_tex (tile_at sb x' y') \<and>
      to_tex (tile_at ?s' x' y') = tmp_tex (tile_at sb x' y') \<and>
      tmp_tex (tile_at ?s' x' y') = None \<and>
      \<not> downloaded (tile_at ?s' x' y') \<and> \<not> download_failed (tile_at ?s' x' y')"
  proof (cases "x' = x \<and> y' = y")
    case True
    with gb show ?thesis by (simp add: commit_grid commit_tile swap_textures_def)
  next
    case False
    with gb show ?thesis by (simp add: commit_tile swap_textures_def)
  qed
  have before: "to_tex (tile_at sb x' y') = to_tex (tile_at s x' y') \<and>
      (if x' = x \<and> y' = y then tmp_tex (tile_at sb x' y') \<noteq> None
       else tmp_tex (tile_at sb x' y') = tmp_tex (tile_at s x' y'))"
  proof (cases "x' = x \<and> y' = y")
    case True
    from st(3) obtain tx
      where "tile_at sb x y = (tile_at (at_barrier x y s) x y)\<lparr>tmp_tex := Some tx\<rparr>" by blast
    with True assms(1) show ?thesis by (simp add: at_barrier_tile)
  next
    case False
    then have "tile_at sb x' y' = tile_at s x' y'" using st(2) by blast
    with False show ?thesis by auto
  qed
  from res fade swapped before show ?thesis by blast
qed


theorem commit_rotates_buffers_witness:
  "in_grid run_4 1 0 \<and> thread (tile_at run_4 1 0) \<and> \<not> wallpaper_shutdown run_4 \<and>
   \<not> failed_or_empty run_4 1 0 \<and> \<not> stale_geometry run_4 1 0 \<and>
   decode_image host_ok 1 0 (at_barrier 1 0 run_4) = Inr run_4_decoded \<and>
   all_done (wallpapers run_4_decoded) \<and> in_grid run_4 0 0 \<and>
   (\<exists>s'. download_complete host_ok 1 0 True run_4 = Inr s' \<and>
      from_tex (tile_at s' 0 0) = None \<and>
      to_tex (tile_at s' 0 0) =
        Some \<lparr>tex = 7, tex_width = 800, tex_height = 600, tex_pixels = jpeg_body\<rparr> \<and>
      tmp_tex (tile_at s' 0 0) = None \<and> \<not> downloaded (tile_at s' 0 0))"
proof -
  have h1: "in_grid run_4 1 0" by code_simp
  have h2: "thread (tile_at run_4 1 0)" by code_simp
  have h3: "\<not> wallpaper_shutdown run_4" by code_simp
  have h4: "\<not> failed_or_empty run_4 1 0" by code_simp
  have h5: "\<not> stale_geometry run_4 1 0" by code_simp
  have h6: "decode_image host_ok 1 0 (at_barrier 1 0 run_4) = Inr run_4_decoded" by code_simp
  have h7: "all_done (wallpapers run_4_decoded)" by code_simp
  have h8: "in_grid run_4 0 0" by code_simp
  have vals: "to_tex (tile_at run_4_decoded 0 0) = None"
    "tmp_tex (tile_at run_4_decoded 0 0) =
       Some \<lparr>tex = 7, tex_width = 800, tex_height = 600, tex_pixels = jpeg_body\<rparr>"
    by code_simp+
  from commit_rotates_buffers [OF h1 h2 h3 h4 h5 h6 h7 h8] vals
  have "\<exists>s'. download_complete host_ok 1 0 True run_4 = Inr s' \<and>
      from_tex (tile_at s' 0 0) = None \<and>
      to_tex (tile_at s' 0 0) =
        Some \<lparr>tex = 7, tex_width = 800, tex_height = 600, tex_pixels = jpeg_body\<rparr> \<and>
      tmp_tex (tile_at s' 0 0) = None \<and> \<not> downloaded (tile_at s' 0 0)"
    by auto
  with h1 h2 h3 h4 h5 h6 h7 h8 show ?thesis by blast
qed


subsection \<open>The barrier\<close>

text \<open>
  Claim C1, as amended. When the handler has processed a successful download (worker
  tracked, no shutdown, flag clear, stream not empty, recorded size equal to the
  output's, data decodable), the commit, seen as the start of the fade, is performed if
  and only if every other tile of the grid is marked downloaded, the handled tile having
  just been marked. With the commit the timer is armed with the cycle time exactly when
  cycling is enabled; without it the timer and the \<open>from\<close> and \<open>to\<close> slots of
  every tile are as before. The flags are all the scan reads: the geometry a tile was
  fetched for was compared with the output's only when that tile's own download was
  handled.
\<close>

theorem commit_iff_all_downloaded:
  assumes "in_grid s x y" "thread (tile_at s x y)" "\<not> wallpaper_shutdown s"
    and "\<not> failed_or_empty s x y" "\<not> stale_geometry s x y"
    and dec: "jpeg_decode h (stream_bytes (tile_at s x y)) \<noteq> None"
  shows "\<exists>s'. download_complete h x y True s = Inr s' \<and>
           (Fade_Animate \<in> set (new_effects s s') \<longleftrightarrow>
              (\<forall>x' y'. in_grid s x' y' \<and> (x' \<noteq> x \<or> y' \<noteq> y) \<longrightarrow> downloaded (tile_at s x' y'))) \<and>
           timer s' =
             (if Fade_Animate \<in> set (new_effects s s') \<and> cycle s then Some (cycle_time s)
              else timer s) \<and>
           (Fade_Animate \<notin> set (new_effects s s') \<longrightarrow>
              (\<forall>x' y'. in_grid s x' y' \<longrightarrow>
                 from_tex (tile_at s' x' y') = from_tex (tile_at s x' y') \<and>
                 to_tex (tile_at s' x' y') = to_tex (tile_at s x' y')))"
proof -
  from dec obtain r where "jpeg_decode h (stream_bytes (tile_at (at_barrier x y s) x y)) = Some r"
    using assms(1) by (auto simp: stream_bytes_at_barrier)
  from decode_image_Some [OF this] obtain sb
    where sb: "decode_image h x y (at_barrier x y s) = Inr sb" by blast
  note st = decoded_state [OF assms(1) sb]
  let ?all = "\<forall>x' y'. in_grid s x' y' \<and> (x' \<noteq> x \<or> y' \<noteq> y) \<longrightarrow> downloaded (tile_at s x' y')"
  let ?s' = "clean_up x y (if all_done (wallpapers sb) then commit sb else sb)"
  have res: "download_complete h x y True s = Inr ?s'"
    by (rule success_result [OF assms(1-5) sb])
  have iff: "all_done (wallpapers sb) \<longleftrightarrow> ?all"
    by (rule decoded_all_done [OF assms(1) sb])
  have fade: "Fade_Animate \<in> set (new_effects s ?s') \<longleftrightarrow> all_done (wallpapers sb)"
    by (simp add: new_effects_def commit_effects st(4))
  have tm: "timer ?s' = (if all_done (wallpapers sb) \<and> cycle s then Some (cycle_time s) else timer s)"
    by (simp add: commit_timer st)
  have keep: "from_tex (tile_at ?s' x' y') = from_tex (tile_at s x' y') \<and>
      to_tex (tile_at ?s' x' y') = to_tex (tile_at s x' y')"
    if nd: "\<not> all_done (wallpapers sb)" and g: "in_grid s x' y'" for x' y'
  proof (cases "x' = x \<and> y' = y")
    case True
    from st(3) obtain tx
      where "tile_at sb x y = (tile_at (at_barrier x y s) x y)\<lparr>tmp_tex := Some tx\<rparr>" by blast
    with True nd assms(1) show ?thesis by (simp add: st(1) at_barrier_tile)
  next
    case False
    then have "tile_at sb x' y' = tile_at s x' y'" using st(2) by blast
    with False nd show ?thesis by auto
  qed
  let ?F = "Fade_Animate \<in> set (new_effects s ?s')"
  from fade iff have f2: "?F \<longleftrightarrow> ?all" by simp
  from tm fade have t2: "timer ?s' = (if ?F \<and> cycle s then Some (cycle_time s) else timer s)"
    by simp
  from keep fade have k2: "\<not> ?F \<longrightarrow>
      (\<forall>x' y'. in_grid s x' y' \<longrightarrow>
         from_tex (tile_at ?s' x' y') = from_tex (tile_at s x' y') \<and>
         to_tex (tile_at ?s' x' y') = to_tex (tile_at s x' y'))"
    by blast
  show ?thesis
    by (rule exI [of _ ?s']) (intro conjI res f2 t2 k2)
qed



theorem commit_iff_all_downloaded_witness:
  "in_grid run_4 1 0 \<and> thread (tile_at run_4 1 0) \<and> \<not> wallpaper_shutdown run_4 \<and>
   \<not> failed_or_empty run_4 1 0 \<and> \<not> stale_geometry run_4 1 0 \<and>
   jpeg_decode host_ok (stream_bytes (tile_at run_4 1 0)) \<noteq> None \<and>
   downloaded (tile_at run_4 0 0) \<and>
   (\<exists>s'. download_complete host_ok 1 0 True run_4 = Inr s' \<and>
      Fade_Animate \<in> set (new_effects run_4 s') \<and> timer s' = timer run_4) \<and>
   in_grid (worker_finishes transfer_ok 0 0 run_0) 1 0 \<and>
   \<not> downloaded (tile_at (worker_finishes transfer_ok 0 0 run_0) 1 0) \<and>
   (\<exists>s'. download_complete host_ok 0 0 True (worker_finishes transfer_ok 0 0 run_0) = Inr s' \<and>
      Fade_Animate \<notin> set (new_effects (worker_finishes transfer_ok 0 0 run_0) s'))"
proof -
  have h1: "in_grid run_4 1 0" by code_simp
  have h2: "thread (tile_at run_4 1 0)" by code_simp
  have h3: "\<not> wallpaper_shutdown run_4" by code_simp
  have h4: "\<not> failed_or_empty run_4 1 0" by code_simp
  have h5: "\<not> stale_geometry run_4 1 0" by code_simp
  have h6: "jpeg_decode host_ok (stream_bytes (tile_at run_4 1 0)) \<noteq> None" by code_simp
  have h7: "downloaded (tile_at run_4 0 0)" by code_simp
  have nc: "\<not> cycle run_4" by code_simp
  have "all_done (wallpapers (mark_downloaded 1 0 run_4))" by code_simp
  then have others:
    "\<forall>x' y'. in_grid run_4 x' y' \<and> (x' \<noteq> 1 \<or> y' \<noteq> 0) \<longrightarrow> downloaded (tile_at run_4 x' y')"
    unfolding all_done_tiles mark_downloaded_def
    by (metis in_grid_put_tile tile_at_put_tile_other)
  from commit_iff_all_downloaded [OF h1 h2 h3 h4 h5 h6] others nc
  have commits: "\<exists>s'. download_complete host_ok 1 0 True run_4 = Inr s' \<and>
      Fade_Animate \<in> set (new_effects run_4 s') \<and> timer s' = timer run_4"
    by auto
  let ?R = "worker_finishes transfer_ok 0 0 run_0"
  have g1: "in_grid ?R 0 0" by code_simp
  have g2: "thread (tile_at ?R 0 0)" by code_simp
  have g3: "\<not> wallpaper_shutdown ?R" by code_simp
  have g4: "\<not> failed_or_empty ?R 0 0" by code_simp
  have g5: "\<not> stale_geometry ?R 0 0" by code_simp
  have g6: "jpeg_decode host_ok (stream_bytes (tile_at ?R 0 0)) \<noteq> None" by code_simp
  have g7: "in_grid ?R 1 0" by code_simp
  have g8: "\<not> downloaded (tile_at ?R 1 0)" by code_simp
  from commit_iff_all_downloaded [OF g1 g2 g3 g4 g5 g6] g7 g8
  have waits: "\<exists>s'. download_complete host_ok 0 0 True ?R = Inr s' \<and>
      Fade_Animate \<notin> set (new_effects ?R s')"
    by (metis zero_neq_one)
  from h1 h2 h3 h4 h5 h6 h7 commits g7 g8 waits show ?thesis by blast
qed

text \<open>
  The claim as stated asks for all tiles to be completed for the same, current geometry
  generation. In the run above the commit is performed although tile (0,0) was fetched
  for 800x600 and the output is 1024x768: \<open>update_texture\<close> does not fetch a tile
  again that is already marked downloaded.
\<close>

theorem commit_with_stale_tile:
  "(case download_complete host_ok 1 0 True run_4 of
      Inl e \<Rightarrow> False
    | Inr s' \<Rightarrow> Fade_Animate \<in> set (new_effects run_4 s')) \<and>
   \<not> all_tiles_completed (at_barrier 1 0 run_4)"
  by code_simp


subsection \<open>Data that does not decode\<close>

lemma decode_image_rows:
  assumes "jpeg_decode h (stream_bytes (tile_at t x y)) = Some (w, ht, rows)"
  shows "\<exists>tx. decode_image h x y t =
           Inr (emit [Texture_Uploaded x y] (put_tile x y ((tile_at t x y)\<lparr>tmp_tex := Some tx\<rparr>) t)) \<and>
           tex_width tx = w \<and> tex_height tx = ht \<and> tex_pixels tx = rows"
  using assms by (fastforce simp: decode_image_def texture_from_jpeg_fp_def Let_def)

text \<open>
  Claim C9, as amended. When the transfer went through (flag clear, stream not empty,
  geometry current), the handler marks the tile downloaded and resets the failure
  counter to 0 before it decodes (lines 380-381), and it does not look at what
  \<open>texture_from_jpeg_fp\<close> returns: the decoder alone decides how the handler goes
  on. So data that does not decode is not treated as a failed download. If libjpeg
  rejects the data, the library's standard error manager ends the process and the
  handler does not return. Whatever libjpeg returns rows for, be it with warnings, is
  uploaded as the tile's pending texture with the size and the rows libjpeg gave; the
  handler returns with the failure counter at 0, the thread joined and no new fetch
  started, and the texture either waits in the pending slot of a tile marked
  downloaded or, when this tile completed the grid, is already the tile's current
  texture with the crossfade started. In neither case is the failure counter
  incremented or a retry issued, and nothing keeps such a texture from the screen.
\<close>

theorem decode_result_is_not_inspected:
  assumes "in_grid s x y" "thread (tile_at s x y)" "\<not> wallpaper_shutdown s"
    and "\<not> failed_or_empty s x y" "\<not> stale_geometry s x y"
  shows "downloaded (tile_at (at_barrier x y s) x y) \<and>
         failed_counter (tile_at (at_barrier x y s) x y) = 0 \<and>
         download_complete h x y True s =
           (case decode_image h x y (at_barrier x y s) of
              Inl e \<Rightarrow> Inl e
            | Inr s2 \<Rightarrow> Inr (clean_up x y (if all_done (wallpapers s2) then commit s2 else s2))) \<and>
         (jpeg_decode h (stream_bytes (tile_at s x y)) = None \<longrightarrow>
            download_complete h x y True s = Inl Jpeg_Error_Exit) \<and>
         (jpeg_decode h (stream_bytes (tile_at s x y)) = Some (w, ht, rows) \<longrightarrow>
            (\<exists>s' tx. download_complete h x y True s = Inr s' \<and>
               failed_counter (tile_at s' x y) = 0 \<and>
               \<not> thread (tile_at s' x y) \<and>
               Thread_Started x y \<notin> set (new_effects s s') \<and>
               Texture_Uploaded x y \<in> set (new_effects s s') \<and>
               tex_width tx = w \<and> tex_height tx = ht \<and> tex_pixels tx = rows \<and>
               (if Fade_Animate \<in> set (new_effects s s')
                then to_tex (tile_at s' x y) = Some tx \<and> tmp_tex (tile_at s' x y) = None
                else tmp_tex (tile_at s' x y) = Some tx \<and> downloaded (tile_at s' x y))))"
proof (intro conjI impI)
  show "downloaded (tile_at (at_barrier x y s) x y)"
    "failed_counter (tile_at (at_barrier x y s) x y) = 0"
    using assms(1) by (simp_all add: at_barrier_tile)
  show "download_complete h x y True s =
      (case decode_image h x y (at_barrier x y s) of
         Inl e \<Rightarrow> Inl e
       | Inr s2 \<Rightarrow> Inr (clean_up x y (if all_done (wallpapers s2) then commit s2 else s2)))"
    by (rule handler_success_path [OF assms])
next
  assume "jpeg_decode h (stream_bytes (tile_at s x y)) = None"
  then have "decode_image h x y (at_barrier x y s) = Inl Jpeg_Error_Exit"
    using assms(1) by (simp add: decode_image_None stream_bytes_at_barrier)
  then show "download_complete h x y True s = Inl Jpeg_Error_Exit"
    using assms by (simp add: handler_success_path)
next
  assume "jpeg_decode h (stream_bytes (tile_at s x y)) = Some (w, ht, rows)"
  then have "jpeg_decode h (stream_bytes (tile_at (at_barrier x y s) x y)) = Some (w, ht, rows)"
    using assms(1) by (simp add: stream_bytes_at_barrier)
  from decode_image_rows [OF this] obtain tx sb where
    sb: "decode_image h x y (at_barrier x y s) = Inr sb"
    and sbdef: "sb = emit [Texture_Uploaded x y]
                  (put_tile x y ((tile_at (at_barrier x y s) x y)\<lparr>tmp_tex := Some tx\<rparr>)
                     (at_barrier x y s))"
    and tx: "tex_width tx = w" "tex_height tx = ht" "tex_pixels tx = rows"
    by blast
  note st = decoded_state [OF assms(1) sb]
  let ?s' = "clean_up x y (if all_done (wallpapers sb) then commit sb else sb)"
  have res: "download_complete h x y True s = Inr ?s'"
    by (rule success_result [OF assms(1-5) sb])
  have gab: "in_grid (at_barrier x y s) x y"
    using assms(1) by (simp only: at_barrier_fields)
  have own: "tile_at sb x y = (tile_at (at_barrier x y s) x y)\<lparr>tmp_tex := Some tx\<rparr>"
    using gab by (simp add: sbdef)
  have gb: "in_grid sb x y" using assms(1) by (simp add: st(1))
  have cnt: "failed_counter (tile_at ?s' x y) = 0"
    using gb own assms(1)
    by (simp add: commit_grid commit_tile swap_textures_def at_barrier_tile)
  have thr: "\<not> thread (tile_at ?s' x y)"
    using gb by (simp add: commit_grid)
  have eff: "Thread_Started x y \<notin> set (new_effects s ?s')"
    "Texture_Uploaded x y \<in> set (new_effects s ?s')"
    by (simp_all add: new_effects_def commit_effects st(4))
  have fade: "Fade_Animate \<in> set (new_effects s ?s') \<longleftrightarrow> all_done (wallpapers sb)"
    by (simp add: new_effects_def commit_effects st(4))
  have slots: "if all_done (wallpapers sb)
      then to_tex (tile_at ?s' x y) = Some tx \<and> tmp_tex (tile_at ?s' x y) = None
      else tmp_tex (tile_at ?s' x y) = Some tx \<and> downloaded (tile_at ?s' x y)"
    using gb own assms(1)
    by (simp add: commit_grid commit_tile swap_textures_def at_barrier_tile)
  from slots fade have slots':
    "if Fade_Animate \<in> set (new_effects s ?s')
     then to_tex (tile_at ?s' x y) = Some tx \<and> tmp_tex (tile_at ?s' x y) = None
     else tmp_tex (tile_at ?s' x y) = Some tx \<and> downloaded (tile_at ?s' x y)"
    by simp
  show "\<exists>s' tx. download_complete h x y True s = Inr s' \<and>
      failed_counter (tile_at s' x y) = 0 \<and> \<not> thread (tile_at s' x y) \<and>
      Thread_Started x y \<notin> set (new_effects s s') \<and>
      Texture_Uploaded x y \<in> set (new_effects s s') \<and>
      tex_width tx = w \<and> tex_height tx = ht \<and> tex_pixels tx = rows \<and>
      (if Fade_Animate \<in> set (new_effects s s')
       then to_tex (tile_at s' x y) = Some tx \<and> tmp_tex (tile_at s' x y) = None
       else tmp_tex (tile_at s' x y) = Some tx \<and> downloaded (tile_at s' x y))"
    by (rule exI [of _ ?s'], rule exI [of _ tx]) (intro conjI res cnt thr eff tx slots')
qed

theorem decode_result_is_not_inspected_witness:
  "in_grid garbage_screen 0 0 \<and> thread (tile_at garbage_screen 0 0) \<and>
   \<not> wallpaper_shutdown garbage_screen \<and> \<not> failed_or_empty garbage_screen 0 0 \<and>
   \<not> stale_geometry garbage_screen 0 0 \<and>
   jpeg_decode host_ok (stream_bytes (tile_at garbage_screen 0 0)) = None \<and>
   downloaded (tile_at (at_barrier 0 0 garbage_screen) 0 0) \<and>
   download_complete host_ok 0 0 True garbage_screen = Inl Jpeg_Error_Exit \<and>
   in_grid truncated_screen 0 0 \<and> thread (tile_at truncated_screen 0 0) \<and>
   \<not> wallpaper_shutdown truncated_screen \<and> \<not> failed_or_empty truncated_screen 0 0 \<and>
   \<not> stale_geometry truncated_screen 0 0 \<and>
   jpeg_decode host_ok (stream_bytes (tile_at truncated_screen 0 0)) =
     Some (800, 600, [0xFF, 0xD8, 0xFF]) \<and>
   (\<exists>s' tx. download_complete host_ok 0 0 True truncated_screen = Inr s' \<and>
      failed_counter (tile_at s' 0 0) = 0 \<and> tex_pixels tx = [0xFF, 0xD8, 0xFF] \<and>
      (if Fade_Animate \<in> set (new_effects truncated_screen s')
       then to_tex (tile_at s' 0 0) = Some tx else tmp_tex (tile_at s' 0 0) = Some tx))"
proof -
  have h1: "in_grid garbage_screen 0 0" by code_simp
  have h2: "thread (tile_at garbage_screen 0 0)" by code_simp
  have h3: "\<not> wallpaper_shutdown garbage_screen" by code_simp
  have h4: "\<not> failed_or_empty garbage_screen 0 0" by code_simp
  have h5: "\<not> stale_geometry garbage_screen 0 0" by code_simp
  have h6: "jpeg_decode host_ok (stream_bytes (tile_at garbage_screen 0 0)) = None" by code_simp
  from decode_result_is_not_inspected [OF h1 h2 h3 h4 h5, of host_ok] h6
  have rejected: "downloaded (tile_at (at_barrier 0 0 garbage_screen) 0 0) \<and>
      download_complete host_ok 0 0 True garbage_screen = Inl Jpeg_Error_Exit" by blast
  have g1: "in_grid truncated_screen 0 0" by code_simp
  have g2: "thread (tile_at truncated_screen 0 0)" by code_simp
  have g3: "\<not> wallpaper_shutdown truncated_screen" by code_simp
  have g4: "\<not> failed_or_empty truncated_screen 0 0" by code_simp
  have g5: "\<not> stale_geometry truncated_screen 0 0" by code_simp
  have g6: "jpeg_decode host_ok (stream_bytes (tile_at truncated_screen 0 0)) =
      Some (800, 600, [0xFF, 0xD8, 0xFF])" by code_simp
  note accepts = decode_result_is_not_inspected
    [OF g1 g2 g3 g4 g5, of host_ok 800 600 "[0xFF, 0xD8, 0xFF]"]
  from accepts g6 obtain s' tx where
    a: "download_complete host_ok 0 0 True truncated_screen = Inr s'"
      "failed_counter (tile_at s' 0 0) = 0" "tex_pixels tx = [0xFF, 0xD8, 0xFF]"
    and b: "if Fade_Animate \<in> set (new_effects truncated_screen s')
      then to_tex (tile_at s' 0 0) = Some tx \<and> tmp_tex (tile_at s' 0 0) = None
      else tmp_tex (tile_at s' 0 0) = Some tx \<and> downloaded (tile_at s' 0 0)"
    by blast
  from b have "if Fade_Animate \<in> set (new_effects truncated_screen s')
      then to_tex (tile_at s' 0 0) = Some tx else tmp_tex (tile_at s' 0 0) = Some tx"
    by (simp split: if_splits)
  with a have accepted: "\<exists>s' tx. download_complete host_ok 0 0 True truncated_screen = Inr s' \<and>
      failed_counter (tile_at s' 0 0) = 0 \<and> tex_pixels tx = [0xFF, 0xD8, 0xFF] \<and>
      (if Fade_Animate \<in> set (new_effects truncated_screen s')
       then to_tex (tile_at s' 0 0) = Some tx else tmp_tex (tile_at s' 0 0) = Some tx)"
    by blast
  from h1 h2 h3 h4 h5 h6 rejected g1 g2 g3 g4 g5 g6 accepted show ?thesis by blast
qed

text \<open>
  The claim as stated has a decode failure counted and retried like a failed
  transfer, and kept from the screen. On a tile with two failures so far: when the
  transfer brought a web page, the handler does not take the failure path, it does not
  return; when the transfer brought an image cut short that libjpeg still returns rows
  for, the handler resets the counter, starts no fetch and commits the texture with the
  crossfade.
\<close>

theorem decode_failure_takes_no_retry_path:
  "\<not> failed_or_empty garbage_screen 0 0 \<and>
   jpeg_decode host_ok (stream_bytes (tile_at garbage_screen 0 0)) = None \<and>
   download_complete host_ok 0 0 True garbage_screen = Inl Jpeg_Error_Exit \<and>
   download_complete host_ok 0 0 True garbage_screen \<noteq>
     Inr (download_failure host_ok 0 0 (check_geometry 0 0 (fflush_image 0 0 garbage_screen))) \<and>
   \<not> failed_or_empty truncated_screen 0 0 \<and>
   (case download_complete host_ok 0 0 True truncated_screen of
      Inl e \<Rightarrow> False
    | Inr s' \<Rightarrow>
        failed_counter (tile_at s' 0 0) = 0 \<and> \<not> thread (tile_at s' 0 0) \<and>
        Fade_Animate \<in> set (effects s') \<and>
        to_tex (tile_at s' 0 0) =
          Some \<lparr>tex = 7, tex_width = 800, tex_height = 600, tex_pixels = [0xFF, 0xD8, 0xFF]\<rparr>)"
  by code_simp

subsection \<open>The worker's loop\<close>

lemma write_cb_frame: "fst (write_cb c wp) = wp\<lparr>image_fp := image_fp (fst (write_cb c wp))\<rparr>"
  by (simp add: write_cb_def split: option.split)

lemma perform_writes_frame:
  "perform_writes st wp = wp\<lparr>image_fp := image_fp (perform_writes st wp)\<rparr>"
proof -
  have "fold (\<lambda>c w. fst (write_cb c w)) cs wp =
          wp\<lparr>image_fp := image_fp (fold (\<lambda>c w. fst (write_cb c w)) cs wp)\<rparr>" for cs
  proof (induction cs arbitrary: wp)
    case Nil
    show ?case by simp
  next
    case (Cons c cs)
    let ?w = "fst (write_cb c wp)"
    have "fold (\<lambda>c w. fst (write_cb c w)) cs ?w =
            ?w\<lparr>image_fp := image_fp (fold (\<lambda>c w. fst (write_cb c w)) cs ?w)\<rparr>"
      by (rule Cons.IH)
    also have "\<dots> = wp\<lparr>image_fp := image_fp (fold (\<lambda>c w. fst (write_cb c w)) cs ?w)\<rparr>"
      by (subst write_cb_frame) simp
    finally show ?case by simp
  qed
  then show ?thesis by (simp add: perform_writes_def)
qed


lemma curl_loop_sound:
  assumes "curl_loop ps i r c wp = Some y"
  shows "i < snd y \<and>
         fst y = wp\<lparr>image_fp := image_fp (fst y), download_failed := download_failed (fst y)\<rparr> \<and>
         (download_failed (fst y) \<longleftrightarrow> download_failed wp \<or> multi_error (ps (snd y - 1)))"
proof (rule curl_loop.raw_induct
    [where P = "\<lambda>ps i r c wp y. i < snd y \<and>
         fst y = wp\<lparr>image_fp := image_fp (fst y), download_failed := download_failed (fst y)\<rparr> \<and>
         (download_failed (fst y) \<longleftrightarrow> download_failed wp \<or> multi_error (ps (snd y - 1)))",
     OF _ assms])
  fix f :: "(nat \<Rightarrow> curl_step) \<Rightarrow> nat \<Rightarrow> int \<Rightarrow> int \<Rightarrow> wallpaper \<Rightarrow> (wallpaper \<times> nat) option"
    and ps :: "nat \<Rightarrow> curl_step" and i :: nat and r c :: int and wp :: wallpaper
    and y :: "wallpaper \<times> nat"
  let ?st = "ps i"
  let ?wp1 = "perform_writes ?st wp"
  assume IH: "\<And>ps i r c wp y. f ps i r c wp = Some y \<Longrightarrow>
      i < snd y \<and>
      fst y = wp\<lparr>image_fp := image_fp (fst y), download_failed := download_failed (fst y)\<rparr> \<and>
      (download_failed (fst y) \<longleftrightarrow> download_failed wp \<or> multi_error (ps (snd y - 1)))"
  assume body: "(let st = ps i; wp1 = perform_writes st wp in
      if perform_mc st \<noteq> CURLM_OK then Some (wp1\<lparr>download_failed := True\<rparr>, Suc i)
      else if wait_mc st \<noteq> CURLM_OK then Some (wp1\<lparr>download_failed := True\<rparr>, Suc i)
      else
        let repeats' = (if numfds st = 0 then r + 1 else 0) in
        if still_running st \<noteq> 0 \<and> (\<not> shutdown_read st \<or> c < 10)
        then f ps (Suc i) repeats' (if shutdown_read st then c + 1 else c) wp1
        else Some (wp1, Suc i)) = Some y"
  have fr: "?wp1 = wp\<lparr>image_fp := image_fp ?wp1\<rparr>" by (rule perform_writes_frame)
  then have df: "download_failed ?wp1 = download_failed wp"
    by (metis wallpaper.select_convs(8) wallpaper.surjective wallpaper.update_convs(2))
  show "i < snd y \<and>
      fst y = wp\<lparr>image_fp := image_fp (fst y), download_failed := download_failed (fst y)\<rparr> \<and>
      (download_failed (fst y) \<longleftrightarrow> download_failed wp \<or> multi_error (ps (snd y - 1)))"
  proof (cases "multi_error ?st")
    case True
    with body have y: "y = (?wp1\<lparr>download_failed := True\<rparr>, Suc i)"
      by (auto simp: multi_error_def Let_def split: if_splits)
    have "?wp1\<lparr>download_failed := True\<rparr> =
            wp\<lparr>image_fp := image_fp ?wp1, download_failed := True\<rparr>"
      by (subst fr) simp
    with y True show ?thesis by simp
  next
    case False
    show ?thesis
    proof (cases "still_running ?st \<noteq> 0 \<and> (\<not> shutdown_read ?st \<or> c < 10)")
      case True
      with False body
      have rec: "f ps (Suc i) (if numfds ?st = 0 then r + 1 else 0)
                   (if shutdown_read ?st then c + 1 else c) ?wp1 = Some y"
        by (simp add: multi_error_def Let_def)
      from IH [OF rec]
      have ih: "Suc i < snd y"
        "fst y = ?wp1\<lparr>image_fp := image_fp (fst y), download_failed := download_failed (fst y)\<rparr>"
        "download_failed (fst y) \<longleftrightarrow> download_failed ?wp1 \<or> multi_error (ps (snd y - 1))"
        by blast+
      have "fst y = wp\<lparr>image_fp := image_fp (fst y), download_failed := download_failed (fst y)\<rparr>"
        by (subst ih(2), subst fr) simp
      with ih(1) ih(3) df show ?thesis by simp
    next
      case stop: False
      with False body have y: "y = (?wp1, Suc i)"
        by (auto simp: multi_error_def Let_def split: if_splits)
      have "?wp1 = wp\<lparr>image_fp := image_fp ?wp1, download_failed := download_failed ?wp1\<rparr>"
        by (subst fr) (simp add: df)
      with y False df show ?thesis by simp
    qed
  qed
qed


lemma curl_loop_stops:
  assumes "multi_error (ps n) \<or> still_running (ps n) = 0" "i \<le> n"
  shows "\<exists>y. curl_loop ps i r c wp = Some y \<and> snd y \<le> Suc n"
  using assms(2)
proof (induction "n - i" arbitrary: i r c wp)
  case 0
  then have "i = n" by simp
  with assms(1) show ?case
    by (subst curl_loop.simps) (auto simp: multi_error_def Let_def)
next
  case (Suc d)
  then have lt: "Suc i \<le> n" and d: "d = n - Suc i" by simp_all
  show ?case
  proof (cases "multi_error (ps i) \<or>
      \<not> (still_running (ps i) \<noteq> 0 \<and> (\<not> shutdown_read (ps i) \<or> c < 10))")
    case True
    with lt show ?thesis
      by (subst curl_loop.simps) (auto simp: multi_error_def Let_def)
  next
    case False
    then have "curl_loop ps i r c wp =
        curl_loop ps (Suc i) (if numfds (ps i) = 0 then r + 1 else 0)
          (if shutdown_read (ps i) then c + 1 else c) (perform_writes (ps i) wp)"
      by (subst curl_loop.simps) (auto simp: multi_error_def Let_def)
    with Suc.hyps(1) [OF d lt] show ?thesis by simp
  qed
qed

lemma curl_loop_shutdown:
  assumes "\<forall>j\<ge>k. shutdown_read (ps j)"
  shows "\<exists>y. curl_loop ps i r c wp = Some y \<and> snd y \<le> max i k + 1 + nat (10 - c)"
proof (induction "(k - i) + nat (10 - c)" arbitrary: i r c wp rule: less_induct)
  case less
  show ?case
  proof (cases "multi_error (ps i) \<or>
      \<not> (still_running (ps i) \<noteq> 0 \<and> (\<not> shutdown_read (ps i) \<or> c < 10))")
    case True
    then show ?thesis
      by (subst curl_loop.simps) (auto simp: multi_error_def Let_def)
  next
    case False
    let ?c' = "if shutdown_read (ps i) then c + 1 else c"
    let ?r' = "if numfds (ps i) = 0 then r + 1 else 0"
    let ?wp1 = "perform_writes (ps i) wp"
    from False have unfold: "curl_loop ps i r c wp = curl_loop ps (Suc i) ?r' ?c' ?wp1"
      by (subst curl_loop.simps) (auto simp: multi_error_def Let_def)
    have cont: "\<not> shutdown_read (ps i) \<or> c < 10" using False by blast
    have seen: "shutdown_read (ps i)" if "k \<le> i" using assms that by blast
    have dec: "(k - Suc i) + nat (10 - ?c') < (k - i) + nat (10 - c)"
      using cont seen by (cases "k \<le> i") auto
    have bound: "max (Suc i) k + 1 + nat (10 - ?c') \<le> max i k + 1 + nat (10 - c)"
      using cont seen by (cases "k \<le> i") auto
    from less [OF dec, of ?r' ?wp1] obtain y
      where "curl_loop ps (Suc i) ?r' ?c' ?wp1 = Some y"
        "snd y \<le> max (Suc i) k + 1 + nat (10 - ?c')" by blast
    with unfold bound show ?thesis by auto
  qed
qed

subsection \<open>Shutdown seen by the worker\<close>

text \<open>
  Claim C6. If the loop test reads the shutdown flag as set in pass \<open>k\<close> and in every
  later pass, the worker returns, and it has made at most \<open>k + 11\<close> passes: pass
  \<open>k\<close> and at most 10 further ones, whatever libcurl reports. A \<open>write_cb\<close> call
  that reads the flag as set writes nothing and returns 0. (The waits inside a pass
  have fixed timeouts in the source, 100 ms each, and are outside the model.)
\<close>

theorem shutdown_bounds_worker:
  assumes "shutdown_from tr k"
  shows "(\<exists>wp' n ev. curl_download tr wp = Some (wp', n, ev) \<and> n \<le> k + 11) \<and>
         write_cb (True, bs) wp = (wp, 0)"
proof -
  from assms have "\<forall>j\<ge>k. shutdown_read (steps tr j)" by (simp add: shutdown_from_def)
  from curl_loop_shutdown [OF this, of 0 0 0 wp] obtain y
    where "curl_loop (steps tr) 0 0 0 wp = Some y" "snd y \<le> k + 11" by auto
  then show ?thesis
    by (cases y) (simp add: curl_download_def write_cb_def)
qed

theorem shutdown_bounds_worker_witness:
  "shutdown_from transfer_stalled 2 \<and>
   (\<exists>wp' n ev. curl_download transfer_stalled fetching_tile = Some (wp', n, ev) \<and> n \<le> 13) \<and>
   map_option (fst \<circ> snd) (curl_download transfer_stalled fetching_tile) = Some 13"
proof -
  have h: "shutdown_from transfer_stalled 2"
    by (simp add: shutdown_from_def transfer_stalled_def)
  have n: "map_option (fst \<circ> snd) (curl_download transfer_stalled fetching_tile) = Some 13"
    by code_simp
  from shutdown_bounds_worker [OF h, of fetching_tile] h n show ?thesis by simp
qed


subsection \<open>The notification\<close>

text \<open>
  Claim C4. A run of the worker that returns has written exactly once to a descriptor,
  as its last action, and that descriptor is the tile's \<open>sig_fd\<close>; the tile it
  leaves differs from the tile it was given in the stream and the failure flag only.
  This holds for every way out of the loop (error, transfer over, shutdown). The worker
  returns whenever some pass reports an error or nothing left running, and whenever the
  shutdown flag is read as set from some pass on: it fails to return only if neither
  ever happens.
\<close>

theorem worker_signals_once:
  "case curl_download tr wp of
     None \<Rightarrow> (\<forall>n. \<not> stops_at tr n) \<and> (\<forall>k. \<not> shutdown_from tr k)
   | Some (wp', n, ev) \<Rightarrow>
       filter (\<lambda>e. case e of Fd_Write fd len \<Rightarrow> True | _ \<Rightarrow> False) ev = [Fd_Write (sig_fd wp) 8] \<and>
       last ev = Fd_Write (sig_fd wp) 8 \<and>
       wp' = wp\<lparr>image_fp := image_fp wp', download_failed := download_failed wp'\<rparr>"
proof (cases "curl_loop (steps tr) 0 0 0 wp")
  case None
  have "\<not> stops_at tr n" for n
    using curl_loop_stops [of "steps tr" n 0 0 0 wp] None by (auto simp: stops_at_def)
  moreover have "\<not> shutdown_from tr k" for k
    using curl_loop_shutdown [of k "steps tr" 0 0 0 wp] None by (auto simp: shutdown_from_def)
  ultimately show ?thesis using None by (simp add: curl_download_def)
next
  case (Some y)
  from curl_loop_sound [OF Some]
  have fr: "fst y = wp\<lparr>image_fp := image_fp (fst y), download_failed := download_failed (fst y)\<rparr>"
    by blast
  then have "sig_fd (fst y) = sig_fd wp"
    by (metis wallpaper.select_convs(1) wallpaper.surjective wallpaper.update_convs(2)
        wallpaper.update_convs(8))
  with Some fr show ?thesis
    by (cases y) (simp add: curl_download_def)
qed


theorem worker_signals_once_witness:
  "curl_download transfer_ok fetching_tile =
     Some (fetching_tile\<lparr>image_fp := Some jpeg_body\<rparr>, 2,
           [Http_Get 800 600 4289383, Fd_Write 3 8]) \<and>
   filter (\<lambda>e. case e of Fd_Write fd len \<Rightarrow> True | _ \<Rightarrow> False)
     [Http_Get 800 600 4289383, Fd_Write 3 8] = [Fd_Write (sig_fd fetching_tile) 8] \<and>
   (\<exists>n. stops_at transfer_ok n)"
proof -
  have run: "curl_download transfer_ok fetching_tile =
     Some (fetching_tile\<lparr>image_fp := Some jpeg_body\<rparr>, 2,
           [Http_Get 800 600 4289383, Fd_Write 3 8])"
    by code_simp
  have "stops_at transfer_ok 1"
    by (simp add: stops_at_def transfer_ok_def)
  with worker_signals_once [of transfer_ok fetching_tile] run show ?thesis
    by auto
qed



subsection \<open>What sets the failure flag\<close>

lemma success_outcome:
  assumes "in_grid s x y" "thread (tile_at s x y)" "\<not> wallpaper_shutdown s"
    and "\<not> failed_or_empty s x y" "\<not> stale_geometry s x y"
  shows "case download_complete h x y True s of
           Inl e \<Rightarrow> jpeg_decode h (stream_bytes (tile_at s x y)) = None
         | Inr s' \<Rightarrow> failed_counter (tile_at s' x y) = 0 \<and>
                     Texture_Uploaded x y \<in> set (new_effects s s')"
proof (cases "jpeg_decode h (stream_bytes (tile_at s x y))")
  case None
  then have "decode_image h x y (at_barrier x y s) = Inl Jpeg_Error_Exit"
    using assms(1) by (simp add: decode_image_None stream_bytes_at_barrier)
  with None show ?thesis
    using assms by (simp add: handler_success_path)
next
  case (Some r)
  then have "jpeg_decode h (stream_bytes (tile_at (at_barrier x y s) x y)) = Some r"
    using assms(1) by (simp add: stream_bytes_at_barrier)
  from decode_image_Some [OF this] obtain sb
    where sb: "decode_image h x y (at_barrier x y s) = Inr sb" by blast
  note st = decoded_state [OF assms(1) sb]
  let ?s' = "clean_up x y (if all_done (wallpapers sb) then commit sb else sb)"
  have res: "download_complete h x y True s = Inr ?s'"
    by (rule success_result [OF assms(1-5) sb])
  from st(3) obtain tx
    where own: "tile_at sb x y = (tile_at (at_barrier x y s) x y)\<lparr>tmp_tex := Some tx\<rparr>" by blast
  have gb: "in_grid sb x y" using assms(1) by (simp add: st(1))
  have "failed_counter (tile_at ?s' x y) = 0"
    using gb own assms(1)
    by (simp add: commit_grid commit_tile swap_textures_def at_barrier_tile)
  moreover have "Texture_Uploaded x y \<in> set (new_effects s ?s')"
    by (simp add: new_effects_def commit_effects st(4))
  ultimately show ?thesis using res by simp
qed

text \<open>
  Claim C8, as amended. The worker sets \<open>download_failed\<close> exactly when the pass it
  leaves the loop in reports an error of \<open>curl_multi_perform\<close> or
  \<open>curl_multi_wait\<close>; the HTTP status of the response plays no part in what the
  worker does. The consumer tests the flag in the handler, together with a test of its
  own for an empty stream: if the flag is set or no byte was received the handler takes
  the failure path, otherwise it decodes what was received and resets the failure
  counter (or libjpeg rejects the data).
\<close>

theorem flag_set_on_multi_error_only:
  assumes run: "curl_download tr wp = Some (wp', n, ev)"
    and tile: "in_grid s x y" "tile_at s x y = wp'" "thread wp'"
      "\<not> wallpaper_shutdown s" "\<not> stale_geometry s x y"
  shows "0 < n \<and>
         (download_failed wp' \<longleftrightarrow> download_failed wp \<or> multi_error (steps tr (n - 1))) \<and>
         curl_download (tr\<lparr>http_status := c\<rparr>) wp = curl_download tr wp \<and>
         (download_failed wp' \<or> stream_size wp' = 0 \<longrightarrow>
            download_complete h x y True s =
              Inr (download_failure h x y (check_geometry x y (fflush_image x y s)))) \<and>
         (\<not> download_failed wp' \<and> stream_size wp' \<noteq> 0 \<longrightarrow>
            (case download_complete h x y True s of
               Inl e \<Rightarrow> jpeg_decode h (stream_bytes wp') = None
             | Inr s' \<Rightarrow> failed_counter (tile_at s' x y) = 0 \<and>
                         Texture_Uploaded x y \<in> set (new_effects s s')))"
proof -
  from run obtain lr where lr: "curl_loop (steps tr) 0 0 0 wp = Some lr" "wp' = fst lr" "n = snd lr"
    by (auto simp: curl_download_def split: option.splits)
  from curl_loop_sound [OF lr(1)] lr(2,3)
  have worker: "0 < n"
    "download_failed wp' \<longleftrightarrow> download_failed wp \<or> multi_error (steps tr (n - 1))"
    by auto
  have status: "curl_download (tr\<lparr>http_status := c\<rparr>) wp = curl_download tr wp"
    by (simp add: curl_download_def split: option.split)
  have thr: "thread (tile_at s x y)" using tile by simp
  have failure: "download_complete h x y True s =
      Inr (download_failure h x y (check_geometry x y (fflush_image x y s)))"
    if "download_failed wp' \<or> stream_size wp' = 0"
    using that tile handler_failure_path [OF tile(1) thr tile(4), of h]
    by (simp add: failed_or_empty_def)
  have success: "case download_complete h x y True s of
        Inl e \<Rightarrow> jpeg_decode h (stream_bytes wp') = None
      | Inr s' \<Rightarrow> failed_counter (tile_at s' x y) = 0 \<and>
                  Texture_Uploaded x y \<in> set (new_effects s s')"
    if "\<not> download_failed wp' \<and> stream_size wp' \<noteq> 0"
  proof -
    from that tile have nfe: "\<not> failed_or_empty s x y" by (simp add: failed_or_empty_def)
    show ?thesis
      unfolding tile(2) [symmetric]
      by (rule success_outcome [OF tile(1) thr tile(4) nfe tile(5)])
  qed
  from worker status failure success show ?thesis by blast
qed

theorem flag_set_on_multi_error_only_witness:
  "curl_download transfer_404 fetching_tile =
     Some (fetching_tile\<lparr>image_fp := Some jpeg_body\<rparr>, 2,
           [Http_Get 800 600 4289383, Fd_Write 3 8]) \<and>
   in_grid (screen_of [[fetching_tile\<lparr>image_fp := Some jpeg_body\<rparr>]]) 0 0 \<and>
   \<not> multi_error (steps transfer_404 1) \<and>
   \<not> download_failed (fetching_tile\<lparr>image_fp := Some jpeg_body\<rparr>) \<and>
   stream_size (fetching_tile\<lparr>image_fp := Some jpeg_body\<rparr>) \<noteq> 0 \<and>
   curl_download (transfer_404\<lparr>http_status := 200\<rparr>) fetching_tile =
     curl_download transfer_404 fetching_tile \<and>
   (case download_complete host_ok 0 0 True (screen_of [[fetching_tile\<lparr>image_fp := Some jpeg_body\<rparr>]]) of
      Inl e \<Rightarrow> False
    | Inr s' \<Rightarrow> failed_counter (tile_at s' 0 0) = 0)"
proof -
  let ?wp' = "fetching_tile\<lparr>image_fp := Some jpeg_body\<rparr>"
  let ?s = "screen_of [[?wp']]"
  have run: "curl_download transfer_404 fetching_tile =
     Some (?wp', 2, [Http_Get 800 600 4289383, Fd_Write 3 8])"
    by code_simp
  have h1: "in_grid ?s 0 0" by code_simp
  have h2: "tile_at ?s 0 0 = ?wp'" by (simp add: tile_at_def screen_of_def)
  have h3: "thread ?wp'" by code_simp
  have h4: "\<not> wallpaper_shutdown ?s" by code_simp
  have h5: "\<not> stale_geometry ?s 0 0" by code_simp
  have v: "\<not> multi_error (steps transfer_404 1)" "\<not> download_failed ?wp'" "stream_size ?wp' \<noteq> 0"
    "jpeg_decode host_ok (stream_bytes ?wp') \<noteq> None"
    by code_simp+
  from flag_set_on_multi_error_only [OF run h1 h2 h3 h4 h5, of 200 host_ok] v
  have "curl_download (transfer_404\<lparr>http_status := 200\<rparr>) fetching_tile =
          curl_download transfer_404 fetching_tile \<and>
        (case download_complete host_ok 0 0 True ?s of
           Inl e \<Rightarrow> False
         | Inr s' \<Rightarrow> failed_counter (tile_at s' 0 0) = 0)"
    by (auto split: sum.splits)
  with run h1 v show ?thesis by blast
qed

text \<open>
  The claim as stated has a response with a status outside 2xx and a transfer of zero
  bytes set the flag. A 404 response with a body leaves the flag clear, and the handler
  swaps the body in as the new wallpaper; a transfer of no bytes leaves the flag clear
  too (it is the handler's size test that catches it).
\<close>

theorem not_found_response_is_committed:
  "(case curl_download transfer_404 fetching_tile of
      None \<Rightarrow> False
    | Some (wp', n, ev) \<Rightarrow>
        \<not> download_failed wp' \<and>
        (case download_complete host_ok 0 0 True (screen_of [[wp']]) of
           Inl e \<Rightarrow> False
         | Inr s' \<Rightarrow> failed_counter (tile_at s' 0 0) = 0 \<and> to_tex (tile_at s' 0 0) \<noteq> None \<and>
                     Fade_Animate \<in> set (effects s'))) \<and>
   (case curl_download transfer_empty fetching_tile of
      None \<Rightarrow> False
    | Some (wp', n, ev) \<Rightarrow> \<not> download_failed wp' \<and> stream_size wp' = 0)"
  by code_simp

subsection \<open>A tile with a live worker is not marked downloaded\<close>

text \<open>
  \<open>init\<close> establishes this, and the worker, the handler, the timer's callback and
  the change of the output's configuration keep it: a fetch is started only on a tile
  that is not marked downloaded (line 468), the mark is set only by the handler, which
  joins the worker before it returns, and the worker writes neither field. So a tile
  the handler runs for, whose thread handle is live, is one that the timer's callback
  fetches again after a failure.
\<close>

lemma update_textures_tile:
  assumes grid: "in_grid s x y"
  shows "tile_at (update_textures h s) x y =
     (let w0 = (tile_at s x y)\<lparr>failed_counter := 0\<rparr> in
      if downloaded w0 \<or> thread w0 then w0
      else if eventfd h x y = - 1 then w0\<lparr>sig_fd := - 1\<rparr>
      else if \<not> open_memstream h x y then w0\<lparr>sig_fd := eventfd h x y, image_fp := None\<rparr>
      else w0\<lparr>sig_fd := eventfd h x y, image_fp := Some [], geometry := output_geometry s,
              event_source := eventfd h x y, thread := True\<rparr>)"
proof -
  let ?s1 = "if is_connected s then disconnect s else s"
  let ?f = "\<lambda>(x, y). update_texture h x y"
  let ?og = "output_geometry s"
  let ?g = "\<lambda>x y wp.
     (let w0 = wp\<lparr>failed_counter := 0\<rparr> in
      if downloaded w0 \<or> thread w0 then w0
      else if eventfd h x y = - 1 then w0\<lparr>sig_fd := - 1\<rparr>
      else if \<not> open_memstream h x y then w0\<lparr>sig_fd := eventfd h x y, image_fp := None\<rparr>
      else w0\<lparr>sig_fd := eventfd h x y, image_fp := Some [], geometry := ?og,
              event_source := eventfd h x y, thread := True\<rparr>)"
  let ?t = "fold ?f (grid_positions ?s1) ?s1"
  have s1: "tile_at ?s1 x' y' = tile_at s x' y'" "in_grid ?s1 x' y' = in_grid s x' y'"
    "output_geometry ?s1 = ?og" "grid_positions ?s1 = grid_positions s" for x' y'
    by (simp_all add: grid_positions_def)
  have unfold: "update_textures h s = emit [Damage_Whole] ?t"
    by (simp add: update_textures_def Let_def)
  have "tile_at ?t x y =
          (if (x, y) \<in> set (grid_positions ?s1) then ?g x y (tile_at ?s1 x y)
           else tile_at ?s1 x y)"
  proof (rule fold_grid_tile_inv
      [where f = ?f and g = ?g and Inv = "\<lambda>t. output_geometry t = ?og"])
    show "tile_at (?f p t) x y = tile_at t x y" if "(x, y) \<noteq> p" for p x y t
      using that by (cases p) (simp add: update_texture_frame)
    show "in_grid (?f p t) x y = in_grid t x y" for p x y t
      by (cases p) (simp add: update_texture_grid)
    show "output_geometry (?f p t) = ?og" if "output_geometry t = ?og" for p t
      using that by (cases p) (simp add: update_texture_geometry)
    show "tile_at (?f (x, y) t) x y = ?g x y (tile_at t x y)"
      if "output_geometry t = ?og" "in_grid t x y" for x y t
      using that by (simp add: update_texture_own Let_def)
    show "distinct (grid_positions ?s1)" by (rule distinct_grid_positions)
    show "in_grid ?s1 x y" using grid by (simp add: s1)
    show "output_geometry ?s1 = ?og" by (simp add: s1)
  qed
  with grid show ?thesis
    by (simp add: unfold s1 set_grid_positions Let_def)
qed

lemma update_textures_grid: "in_grid (update_textures h s) x y = in_grid s x y"
proof -
  have "in_grid (fold (\<lambda>(x, y). update_texture h x y) ps t) x y = in_grid t x y" for ps t
  proof (induction ps arbitrary: t)
    case Nil
    show ?case by simp
  next
    case (Cons p ps)
    show ?case by (cases p) (simp add: Cons.IH update_texture_grid)
  qed
  then show ?thesis by (simp add: update_textures_def Let_def)
qed

lemma update_textures_keeps:
  assumes "fetching_not_downloaded s"
  shows "fetching_not_downloaded (update_textures h s)"
  unfolding fetching_not_downloaded_def
proof (intro allI impI)
  fix x y
  assume a: "in_grid (update_textures h s) x y \<and> thread (tile_at (update_textures h s) x y)"
  then have g: "in_grid s x y" by (simp add: update_textures_grid)
  with assms have old: "thread (tile_at s x y) \<longrightarrow> \<not> downloaded (tile_at s x y)"
    by (simp add: fetching_not_downloaded_def)
  from a old show "\<not> downloaded (tile_at (update_textures h s) x y)"
    by (auto simp: update_textures_tile [OF g] Let_def split: if_splits)
qed


lemma init_keeps: "fetching_not_downloaded (init h wsize_width wsize_height og cyc ct junk)"
proof -
  let ?s0 = "\<lparr>timer = None, hook_set = False, wallpaper_shutdown = False,
        wallpapers =
          map (\<lambda>x. map (\<lambda>y. (new_wallpaper junk)\<lparr>view_geometry := tile_box og x y\<rparr>)
                     [0..<wsize_height])
              [0..<wsize_width],
        cycle = cyc, cycle_time = ct, output_geometry = og, effects = []\<rparr>"
  have "fetching_not_downloaded ?s0"
    by (auto simp: fetching_not_downloaded_def in_grid_def tile_at_def new_wallpaper_def)
  then show ?thesis
    unfolding init_def by (rule update_textures_keeps)
qed

lemma worker_finishes_keeps:
  assumes "fetching_not_downloaded s"
  shows "fetching_not_downloaded (worker_finishes tr x y s)"
proof (cases "curl_loop (steps tr) 0 0 0 (tile_at s x y)")
  case None
  with assms show ?thesis by (simp add: worker_finishes_def curl_download_def)
next
  case (Some r)
  let ?wp = "tile_at s x y"
  from curl_loop_sound [OF Some]
  have fr: "fst r = ?wp\<lparr>image_fp := image_fp (fst r), download_failed := download_failed (fst r)\<rparr>"
    by blast
  have same: "thread (fst r) = thread ?wp" "downloaded (fst r) = downloaded ?wp"
    by (subst fr, simp)+
  have res: "worker_finishes tr x y s = put_tile x y (fst r) s"
    using Some by (cases r) (simp add: worker_finishes_def curl_download_def)
  show ?thesis
    unfolding fetching_not_downloaded_def res
  proof (intro allI impI)
    fix x' y'
    assume a: "in_grid (put_tile x y (fst r) s) x' y' \<and>
      thread (tile_at (put_tile x y (fst r) s) x' y')"
    then have g: "in_grid s x' y'" by simp
    show "\<not> downloaded (tile_at (put_tile x y (fst r) s) x' y')"
    proof (cases "x' = x \<and> y' = y")
      case True
      with a g same assms show ?thesis by (auto simp: fetching_not_downloaded_def)
    next
      case False
      with a g assms show ?thesis by (auto simp: fetching_not_downloaded_def)
    qed
  qed
qed

lemma failure_other:
  "x' \<noteq> x \<or> y' \<noteq> y \<Longrightarrow> tile_at (download_failure h x y t) x' y' = tile_at t x' y'"
  by (auto simp: download_failure_def Let_def)

lemma handler_keeps:
  assumes inv: "fetching_not_downloaded s" and grid: "in_grid s x y"
    and res: "download_complete h x y readable s = Inr s'"
  shows "fetching_not_downloaded s'"
proof (cases "readable \<and> thread (tile_at s x y)")
  case False
  with res have "s' = s" by (auto simp: download_complete_def split: if_splits)
  with inv show ?thesis by simp
next
  case True
  then have r: "readable" and thr: "thread (tile_at s x y)" by simp_all
  from inv grid thr have nd: "\<not> downloaded (tile_at s x y)"
    by (auto simp: fetching_not_downloaded_def)
  have old: "thread (tile_at s x' y') \<longrightarrow> \<not> downloaded (tile_at s x' y')" if "in_grid s x' y'"
    for x' y' using inv that by (auto simp: fetching_not_downloaded_def)
  show ?thesis
  proof (cases "wallpaper_shutdown s")
    case True
    with res r thr have s': "s' = clean_up x y s" by (simp add: download_complete_def)
    show ?thesis
      unfolding fetching_not_downloaded_def s'
    proof (intro allI impI)
      fix x' y'
      assume a: "in_grid (clean_up x y s) x' y' \<and> thread (tile_at (clean_up x y s) x' y')"
      then have g: "in_grid s x' y'" by simp
      show "\<not> downloaded (tile_at (clean_up x y s) x' y')"
        using a g old [OF g] grid by (cases "x' = x \<and> y' = y") auto
    qed
  next
    case ns: False
    show ?thesis
    proof (cases "failed_or_empty s x y \<or> stale_geometry s x y")
      case True
      let ?t = "check_geometry x y (fflush_image x y s)"
      from handler_failure_path [OF grid thr ns True, of h] res r
      have s': "s' = download_failure h x y ?t" by simp
      have gt: "in_grid ?t x y" using grid by (simp add: checked_fields)
      have own: "\<not> downloaded (tile_at s' x y)"
        using failure_downloaded [OF gt, of h] nd grid by (simp add: s' checked_tile)
      show ?thesis
        unfolding fetching_not_downloaded_def
      proof (intro allI impI)
        fix x' y'
        assume a: "in_grid s' x' y' \<and> thread (tile_at s' x' y')"
        then have g: "in_grid s x' y'" by (simp add: s' failure_frame checked_fields)
        show "\<not> downloaded (tile_at s' x' y')"
        proof (cases "x' = x \<and> y' = y")
          case True
          with own show ?thesis by simp
        next
          case False
          then have "tile_at s' x' y' = tile_at s x' y'"
            by (simp add: s' failure_other checked_other)
          with a old [OF g] show ?thesis by simp
        qed
      qed
    next
      case False
      then have ok: "\<not> failed_or_empty s x y" "\<not> stale_geometry s x y" by simp_all
      from handler_success_path [OF grid thr ns ok, of h] res r
      obtain sb where sb: "decode_image h x y (at_barrier x y s) = Inr sb"
        and s': "s' = clean_up x y (if all_done (wallpapers sb) then commit sb else sb)"
        by (auto split: sum.splits)
      note st = decoded_state [OF grid sb]
      show ?thesis
        unfolding fetching_not_downloaded_def
      proof (intro allI impI)
        fix x' y'
        assume a: "in_grid s' x' y' \<and> thread (tile_at s' x' y')"
        then have g: "in_grid s x' y'" by (simp add: s' commit_grid st(1) split: if_splits)
        then have gb: "in_grid sb x' y'" by (simp add: st(1))
        show "\<not> downloaded (tile_at s' x' y')"
        proof (cases "x' = x \<and> y' = y")
          case True
          with a gb show ?thesis by (simp add: s' commit_grid split: if_splits)
        next
          case False
          then have other: "tile_at sb x' y' = tile_at s x' y'" using st(2) by blast
          from False a gb other old [OF g] show ?thesis
            by (auto simp: s' commit_tile swap_textures_def split: if_splits)
        qed
      qed
    qed
  qed
qed

lemma output_config_changed_keeps:
  assumes "fetching_not_downloaded s"
  shows "fetching_not_downloaded (output_config_changed h changed_fields (output_resized og s))"
proof -
  let ?s0 = "output_resized og s"
  let ?f = "\<lambda>(x, y) t. put_tile x y ((tile_at t x y)\<lparr>view_geometry := tile_box og x y\<rparr>) t"
  let ?g = "\<lambda>x y wp. wp\<lparr>view_geometry := tile_box og x y\<rparr>"
  let ?t = "fold ?f (grid_positions ?s0) ?s0"
  have s0: "in_grid ?s0 x y = in_grid s x y" "tile_at ?s0 x y = tile_at s x y"
    "output_geometry ?s0 = og" for x y
    by (simp_all add: output_resized_def in_grid_def tile_at_def)
  from assms have inv0: "fetching_not_downloaded ?s0"
    by (simp add: fetching_not_downloaded_def s0)
  have grid: "in_grid (fold ?f ps t) x y = in_grid t x y" for ps t x y
  proof (induction ps arbitrary: t)
    case Nil
    show ?case by simp
  next
    case (Cons p ps)
    show ?case by (cases p) (simp add: Cons.IH)
  qed
  have tile: "tile_at ?t x y =
      (if (x, y) \<in> set (grid_positions ?s0) then ?g x y (tile_at ?s0 x y) else tile_at ?s0 x y)"
    if "in_grid ?s0 x y" for x y
  proof (rule fold_grid_tile [where f = ?f and g = ?g])
    show "tile_at (?f p t) x y = tile_at t x y" if "(x, y) \<noteq> p" for p x y t
      using that by (cases p) auto
    show "in_grid (?f p t) x y = in_grid t x y" for p x y t
      by (cases p) simp
    show "tile_at (?f (x, y) t) x y = ?g x y (tile_at t x y)" if "in_grid t x y" for x y t
      using that by simp
    show "distinct (grid_positions ?s0)" by (rule distinct_grid_positions)
    show "in_grid ?s0 x y" by (rule that)
  qed
  have invt: "fetching_not_downloaded ?t"
    unfolding fetching_not_downloaded_def
  proof (intro allI impI)
    fix x y
    assume a: "in_grid ?t x y \<and> thread (tile_at ?t x y)"
    then have g: "in_grid ?s0 x y" by (simp add: grid)
    from a tile [OF g] inv0 g show "\<not> downloaded (tile_at ?t x y)"
      by (auto simp: fetching_not_downloaded_def split: if_splits)
  qed
  show ?thesis
    using inv0 update_textures_keeps [OF invt, of h]
    by (simp add: output_config_changed_def s0)
qed

lemma cycle_timeout_keeps:
  "fetching_not_downloaded s \<Longrightarrow> fetching_not_downloaded (cycle_timeout h s)"
  by (simp add: cycle_timeout_def update_textures_keeps)


end
